theory Spec2Isabelle
  imports Complex_Main
begin

section \<open>Python values, exceptions and persisted rows\<close>

text \<open>
  Timestamps are the values of \<^verbatim>\<open>datetime.timestamp()\<close> and \<^verbatim>\<open>time.time()\<close>:
  seconds since the epoch. The source holds them in floats; a float is modelled by the
  rational it denotes. The arithmetic that \<^verbatim>\<open>proxy.py\<close> does on floats (a
  subtraction, a sum, a division) rounds its result; it goes through the operations
  \<open>float_sub\<close>, \<open>float_sum\<close> and \<open>float_div\<close> of the environment below. In
  \<^verbatim>\<open>security.py\<close> the 365 days are added to a \<^verbatim>\<open>datetime\<close>, which is exact.
\<close>

type_synonym timestamp = rat

text \<open>The JSON values that occur in token claims: strings and numbers.\<close>

datatype jval = JStr string | JNum rat

text \<open>A Python dict with string keys, in insertion order.\<close>

type_synonym jdict = "(string \<times> jval) list"

datatype httpx_kind = TimeoutException | ConnectError | RemoteProtocolError | HTTPStatusError

text \<open>
  The exceptions that can travel through the modelled functions. The first group is
  PyJWT's \<^verbatim>\<open>jwt.exceptions\<close> (all derive from \<^verbatim>\<open>jwt.exceptions.PyJWTError\<close>), the
  second python-jose's \<^verbatim>\<open>jose.exceptions\<close> (all derive from
  \<^verbatim>\<open>jose.exceptions.JOSEError\<close>), then FastAPI's \<^verbatim>\<open>HTTPException\<close> with its status
  code and detail, the exceptions of httpx with their message, and the exceptions that
  reading an upstream body and building the reply from it can raise. Every one of these
  classes derives from \<^verbatim>\<open>Exception\<close>, so an \<^verbatim>\<open>except Exception\<close> clause catches
  each value of this type.
\<close>

datatype pyexc =
    DecodeError
  | InvalidAlgorithmError
  | InvalidSignatureError
  | ExpiredSignatureError
  | ImmatureSignatureError
  | InvalidIssuedAtError
  | InvalidAudienceError
  | InvalidSubjectError
  | InvalidJTIError
  | JWTError
  | JWTClaimsError
  | JoseExpiredSignatureError
  | HTTPException nat string
  | HttpxError httpx_kind string
  | JSONDecodeError string
  | KeyError string
  | TypeError string
  | ValidationError string
  | IndexError string

text \<open>
  \<^verbatim>\<open>isinstance(e, jose.JWTError)\<close>. In python-jose \<^verbatim>\<open>JWTClaimsError\<close> and
  \<^verbatim>\<open>ExpiredSignatureError\<close> subclass \<^verbatim>\<open>JWTError\<close>. No class of PyJWT does: its
  hierarchy is rooted in its own \<^verbatim>\<open>PyJWTError(Exception)\<close>.
\<close>

fun isinstance_JWTError :: "pyexc \<Rightarrow> bool" where
  "isinstance_JWTError JWTError = True"
| "isinstance_JWTError JWTClaimsError = True"
| "isinstance_JWTError JoseExpiredSignatureError = True"
| "isinstance_JWTError _ = False"

text \<open>
  \<^verbatim>\<open>str(e)\<close> for the exceptions that can reach the handler of \<^verbatim>\<open>proxy_fetch\<close>,
  whose text goes into the reply; the others carry no text in this model.
\<close>

fun py_str :: "pyexc \<Rightarrow> string" where
  "py_str (HttpxError k msg) = msg"
| "py_str (JSONDecodeError msg) = msg"
| "py_str (KeyError k) = [CHR 0x27] @ k @ [CHR 0x27]"
| "py_str (HTTPException c d) = d"
| "py_str (TypeError msg) = msg"
| "py_str (ValidationError msg) = msg"
| "py_str (IndexError msg) = msg"
| "py_str _ = []"

text \<open>
  A naive \<^verbatim>\<open>datetime\<close> as Python stores it: calendar fields, no time zone.
\<close>

record datetime =
  year :: nat
  month :: nat
  day :: nat
  hour :: nat
  minute :: nat
  second :: nat
  microsecond :: nat

text \<open>
  The rows of \<^verbatim>\<open>app.models\<close> that the routes read. \<open>User_id\<close> is the column
  \<^verbatim>\<open>User.id\<close> and \<open>token_is_active\<close> the column \<^verbatim>\<open>APIToken.is_active\<close>.
\<close>

record User =
  User_id :: string
  is_active :: bool
  has_subscription :: bool

record APIToken =
  user_id :: string
  token :: string
  created_at :: datetime
  expires_at :: datetime
  token_is_active :: bool

text \<open>
  What a request can read besides its own arguments: the process-wide settings and the
  database behind the session.
\<close>

record world =
  SECRET_KEY :: string
  api_tokens :: "APIToken list"
  users :: "User list"

section \<open>The PyJWT calls of \<^verbatim>\<open>app/core/security.py\<close>\<close>

text \<open>
  \<^verbatim>\<open>jwt.encode\<close> and \<^verbatim>\<open>jwt.decode\<close> are PyJWT's. Their control flow is written out
  below; the primitives they rest on are taken as parameters: JSON serialisation of a
  dict, base64url without padding, HMAC-SHA256, and \<^verbatim>\<open>int()\<close> on a string.
  \<^verbatim>\<open>json_loads\<close> is \<open>None\<close> when the text is not a JSON object, \<^verbatim>\<open>b64_decode\<close> is
  \<open>None\<close> when the segment is not base64url.
\<close>

record jwt_lib =
  json_dumps :: "jdict \<Rightarrow> string"
  json_loads :: "string \<Rightarrow> jdict option"
  b64_encode :: "string \<Rightarrow> string"
  b64_decode :: "string \<Rightarrow> string option"
  hmac_sha256 :: "string \<Rightarrow> string \<Rightarrow> string"
  int_of_str :: "string \<Rightarrow> int option"

text \<open>\<^verbatim>\<open>s.split(c, 1)\<close> when it yields two parts; \<open>None\<close> when \<open>c\<close> does not occur.\<close>

fun split1 :: "char \<Rightarrow> string \<Rightarrow> (string \<times> string) option" where
  "split1 c [] = None"
| "split1 c (x # xs) =
     (if x = c then Some ([], xs)
      else (case split1 c xs of None \<Rightarrow> None | Some (a, b) \<Rightarrow> Some (x # a, b)))"

text \<open>\<^verbatim>\<open>s.rsplit(c, 1)\<close>: the same from the right.\<close>

definition rsplit1 :: "char \<Rightarrow> string \<Rightarrow> (string \<times> string) option" where
  "rsplit1 c s = (case split1 c (rev s) of None \<Rightarrow> None | Some (a, b) \<Rightarrow> Some (rev b, rev a))"

text \<open>\<^verbatim>\<open>int(x)\<close> on a float truncates towards zero.\<close>

definition py_trunc :: "rat \<Rightarrow> int" where
  "py_trunc r = (if 0 \<le> r then \<lfloor>r\<rfloor> else \<lceil>r\<rceil>)"

definition py_int :: "jwt_lib \<Rightarrow> jval \<Rightarrow> int option" where
  "py_int L v = (case v of JNum r \<Rightarrow> Some (py_trunc r) | JStr s \<Rightarrow> int_of_str L s)"

text \<open>
  \<^verbatim>\<open>jwt.encode(payload, key, algorithm)\<close>: header and payload are serialised and
  base64url-encoded, joined by a dot and signed; the signature is the third segment.
  Claims that are already numbers are written as they are.
\<close>

definition jwt_header :: "string \<Rightarrow> jdict" where
  "jwt_header alg = [(''alg'', JStr alg), (''typ'', JStr ''JWT'')]"

definition jwt_encode :: "jwt_lib \<Rightarrow> jdict \<Rightarrow> string \<Rightarrow> string \<Rightarrow> string" where
  "jwt_encode L payload key alg =
     (let header_segment = b64_encode L (json_dumps L (jwt_header alg));
          payload_segment = b64_encode L (json_dumps L payload);
          signing_input = header_segment @ ''.'' @ payload_segment;
          signature = hmac_sha256 L key signing_input
      in signing_input @ ''.'' @ b64_encode L signature)"

text \<open>Python's truth value of a claim: an empty string and the number zero are false.\<close>

definition py_truthy :: "jval \<Rightarrow> bool" where
  "py_truthy v = (case v of JStr s \<Rightarrow> s \<noteq> [] | JNum r \<Rightarrow> r \<noteq> 0)"

definition isinstance_str :: "jval \<Rightarrow> bool" where
  "isinstance_str v = (case v of JStr s \<Rightarrow> True | JNum r \<Rightarrow> False)"

text \<open>
  The claim checks of \<^verbatim>\<open>jwt.decode\<close> with its default options and no audience,
  issuer or subject given, in PyJWT's order: \<^verbatim>\<open>iat\<close>, \<^verbatim>\<open>nbf\<close>, \<^verbatim>\<open>exp\<close> (each only
  when present, each compared after \<^verbatim>\<open>int()\<close>, with zero leeway); \<^verbatim>\<open>aud\<close>, which
  is refused when present and not false; \<^verbatim>\<open>sub\<close> and \<^verbatim>\<open>jti\<close>, which must be
  strings when present.
\<close>

definition validate_claims :: "jwt_lib \<Rightarrow> timestamp \<Rightarrow> jdict \<Rightarrow> pyexc option" where
  "validate_claims L now payload =
     (let iat_err =
            (case map_of payload ''iat'' of None \<Rightarrow> None
             | Some v \<Rightarrow> (case py_int L v of None \<Rightarrow> Some InvalidIssuedAtError
                 | Some iat_i \<Rightarrow> if of_int iat_i > now then Some ImmatureSignatureError else None));
          nbf_err =
            (case map_of payload ''nbf'' of None \<Rightarrow> None
             | Some v \<Rightarrow> (case py_int L v of None \<Rightarrow> Some DecodeError
                 | Some nbf_i \<Rightarrow> if of_int nbf_i > now then Some ImmatureSignatureError else None));
          exp_err =
            (case map_of payload ''exp'' of None \<Rightarrow> None
             | Some v \<Rightarrow> (case py_int L v of None \<Rightarrow> Some DecodeError
                 | Some exp_i \<Rightarrow> if of_int exp_i \<le> now then Some ExpiredSignatureError else None));
          aud_err =
            (case map_of payload ''aud'' of None \<Rightarrow> None
             | Some v \<Rightarrow> if py_truthy v then Some InvalidAudienceError else None);
          sub_err =
            (case map_of payload ''sub'' of None \<Rightarrow> None
             | Some v \<Rightarrow> if isinstance_str v then None else Some InvalidSubjectError);
          jti_err =
            (case map_of payload ''jti'' of None \<Rightarrow> None
             | Some v \<Rightarrow> if isinstance_str v then None else Some InvalidJTIError)
      in case iat_err of Some e \<Rightarrow> Some e | None \<Rightarrow>
         (case nbf_err of Some e \<Rightarrow> Some e | None \<Rightarrow>
         (case exp_err of Some e \<Rightarrow> Some e | None \<Rightarrow>
         (case aud_err of Some e \<Rightarrow> Some e | None \<Rightarrow>
         (case sub_err of Some e \<Rightarrow> Some e | None \<Rightarrow> jti_err)))))"

text \<open>
  \<^verbatim>\<open>jwt.decode(token, key, algorithms=...)\<close> at time \<open>now\<close>: split at the last and at
  the first dot, decode the three segments, check the algorithm of the header against
  the allowed ones, compare the signature with the recomputed one, parse the payload,
  check the claims. Every failure raises one of PyJWT's exceptions.
\<close>

definition jwt_decode ::
  "jwt_lib \<Rightarrow> timestamp \<Rightarrow> string \<Rightarrow> string \<Rightarrow> string list \<Rightarrow> pyexc + jdict" where
  "jwt_decode L now tok key algorithms =
     (case rsplit1 CHR ''.'' tok of None \<Rightarrow> Inl DecodeError
      | Some (signing_input, crypto_segment) \<Rightarrow>
     (case split1 CHR ''.'' signing_input of None \<Rightarrow> Inl DecodeError
      | Some (header_segment, payload_segment) \<Rightarrow>
     (case b64_decode L header_segment of None \<Rightarrow> Inl DecodeError
      | Some header_data \<Rightarrow>
     (case json_loads L header_data of None \<Rightarrow> Inl DecodeError
      | Some header \<Rightarrow>
     (case b64_decode L payload_segment of None \<Rightarrow> Inl DecodeError
      | Some payload_data \<Rightarrow>
     (case b64_decode L crypto_segment of None \<Rightarrow> Inl DecodeError
      | Some signature \<Rightarrow>
     (case map_of header ''alg'' of
        Some (JStr alg) \<Rightarrow>
          if alg = [] \<or> alg \<notin> set algorithms then Inl InvalidAlgorithmError
          else if signature \<noteq> hmac_sha256 L key signing_input then Inl InvalidSignatureError
          else (case json_loads L payload_data of None \<Rightarrow> Inl DecodeError
                | Some payload \<Rightarrow>
                    (case validate_claims L now payload of
                       Some e \<Rightarrow> Inl e | None \<Rightarrow> Inr payload))
      | _ \<Rightarrow> Inl InvalidAlgorithmError)))))))"

section \<open>\<^verbatim>\<open>app/core/security.py\<close>\<close>

definition ALGORITHM :: string where
  "ALGORITHM = ''HS256''"

definition days :: "nat \<Rightarrow> rat" where
  "days n = of_nat n * 86400"

text \<open>
  \<^verbatim>\<open>generate_api_key\<close> reads the clock twice, once for \<^verbatim>\<open>iat\<close> (\<open>now_iat\<close>) and once
  for \<^verbatim>\<open>exp\<close> (\<open>now_exp\<close>).
\<close>

definition api_key_claims :: "timestamp \<Rightarrow> timestamp \<Rightarrow> string \<Rightarrow> jdict" where
  "api_key_claims now_iat now_exp uid =
     [(''user_id'', JStr uid), (''iat'', JNum now_iat), (''exp'', JNum (now_exp + days 365))]"

definition generate_api_key ::
  "jwt_lib \<Rightarrow> world \<Rightarrow> timestamp \<Rightarrow> timestamp \<Rightarrow> string \<Rightarrow> string" where
  "generate_api_key L w now_iat now_exp uid =
     (let to_encode = api_key_claims now_iat now_exp uid
      in jwt_encode L to_encode (SECRET_KEY w) ALGORITHM)"

text \<open>
  \<^verbatim>\<open>verify_api_key\<close>: the \<^verbatim>\<open>except JWTError\<close> clause names the class imported from
  \<^verbatim>\<open>jose\<close>, while the call in the \<^verbatim>\<open>try\<close> block is PyJWT's. An exception that is not
  an instance of that class leaves the function (\<open>Inl\<close>); \<open>Inr None\<close> is the returned
  \<^verbatim>\<open>None\<close>.
\<close>

definition verify_api_key ::
  "jwt_lib \<Rightarrow> world \<Rightarrow> timestamp \<Rightarrow> string \<Rightarrow> pyexc + jdict option" where
  "verify_api_key L w now api_key =
     (case jwt_decode L now api_key (SECRET_KEY w) [ALGORITHM] of
        Inr payload \<Rightarrow> Inr (Some payload)
      | Inl e \<Rightarrow> if isinstance_JWTError e then Inr None else Inl e)"

section \<open>\<^verbatim>\<open>app/api/routes/proxy.py\<close>: registry, models, network\<close>

definition REGION_ENDPOINTS :: "(string \<times> string list) list" where
  "REGION_ENDPOINTS =
   [(''northamerica-northeast'',
      [''https://northamerica-northeast1-proxy2-455013.cloudfunctions.net/main'',
       ''https://northamerica-northeast2-proxy2-455013.cloudfunctions.net/main'']),
    (''southamerica'',
      [''https://southamerica-west1-proxy1-454912.cloudfunctions.net/main'',
       ''https://southamerica-east1-proxy3-455013.cloudfunctions.net/main'',
       ''https://southamerica-west1-proxy3-455013.cloudfunctions.net/main'']),
    (''us-central'',
      [''https://us-central1-proxy1-454912.cloudfunctions.net/main'',
       ''https://us-central1-proxy2-455013.cloudfunctions.net/main'',
       ''https://us-south1-proxy3-455013.cloudfunctions.net/main'']),
    (''us-east'',
      [''https://us-east1-proxy1-454912.cloudfunctions.net/main'',
       ''https://us-east4-proxy1-454912.cloudfunctions.net/main'',
       ''https://us-east5-proxy2-455013.cloudfunctions.net/main'']),
    (''asia'',
      [''https://asia-east1-proxy6-455014.cloudfunctions.net/main'',
       ''https://asia-northeast2-proxy6-455014.cloudfunctions.net/main'']),
    (''us-west'',
      [''https://us-west1-proxy1-454912.cloudfunctions.net/main'',
       ''https://us-west3-proxy1-454912.cloudfunctions.net/main'',
       ''https://us-west4-proxy1-454912.cloudfunctions.net/main'',
       ''https://us-west2-proxy2-455013.cloudfunctions.net/main'']),
    (''europe'',
      [''https://europe-north1-proxy4-455014.cloudfunctions.net/main'',
       ''https://europe-southwest1-proxy4-455014.cloudfunctions.net/main'',
       ''https://europe-west1-proxy4-455014.cloudfunctions.net/main'',
       ''https://europe-west4-proxy4-455014.cloudfunctions.net/main'',
       ''https://europe-west6-proxy4-455014.cloudfunctions.net/main'',
       ''https://europe-west8-proxy4-455014.cloudfunctions.net/main'',
       ''https://europe-west12-proxy5-455014.cloudfunctions.net/main'',
       ''https://europe-west2-proxy5-455014.cloudfunctions.net/main'',
       ''https://europe-west3-proxy5-455014.cloudfunctions.net/main'',
       ''https://europe-west6-proxy5-455014.cloudfunctions.net/main'',
       ''https://europe-west9-proxy5-455014.cloudfunctions.net/main'',
       ''https://europe-west10-proxy6-455014.cloudfunctions.net/main'']),
    (''middle-east'',
      [''https://me-central1-proxy6-455014.cloudfunctions.net/main'']),
    (''australia'',
      [''https://australia-southeast1-proxy3-455013.cloudfunctions.net/main'',
       ''https://australia-southeast2-proxy3-455013.cloudfunctions.net/main''])]"

text \<open>The pydantic models; the prefixes keep the field names apart.\<close>

record APIKeyResponse =
  akr_key_preview :: string
  akr_created_at :: string
  akr_expires_at :: string
  akr_is_active :: bool

record ProxyStatus =
  ps_region :: string
  ps_is_healthy :: bool
  ps_avg_response_time :: rat
  ps_healthy_endpoints :: nat
  ps_total_endpoints :: nat
  ps_last_checked :: datetime

record ProxyStatusResponse =
  statuses :: "ProxyStatus list"

record ProxyRequest =
  url :: string

record ProxyResponse =
  pr_result :: string
  pr_public_ip :: string
  pr_device_id :: string
  pr_region_used :: string

text \<open>The dict that \<^verbatim>\<open>check_proxy_health\<close> returns.\<close>

record health_result =
  hr_region :: string
  hr_is_healthy :: bool
  hr_response_time :: rat
  hr_last_checked :: datetime

text \<open>
  An httpx response: its status code, the text httpx gives the \<^verbatim>\<open>HTTPStatusError\<close> it
  raises for that status, and what \<^verbatim>\<open>response.json()\<close> gives: a JSON object, or the
  exception raised on the way to one (\<^verbatim>\<open>JSONDecodeError\<close> for a body that is not
  JSON, \<^verbatim>\<open>TypeError\<close> when the value cannot be subscripted by a string).
\<close>

record http_response =
  status_code :: nat
  status_text :: string
  json :: "pyexc + jdict"

text \<open>
  The network and the clocks as one request sees them. \<open>http_get\<close> and \<open>http_post\<close>
  are the outcomes of \<^verbatim>\<open>client.get(url)\<close> and \<^verbatim>\<open>client.post(url, json=body)\<close>: a
  response, or the exception httpx raises (timeout, refused connection, malformed
  response). The probes of one request run concurrently; each reads
  \<^verbatim>\<open>time.time()\<close> when it starts and again when its outcome is known, and
  \<^verbatim>\<open>datetime.utcnow()\<close> when it returns. These readings are given per endpoint
  address. \<open>route_utcnow\<close> is the \<^verbatim>\<open>datetime.utcnow()\<close> the route itself may read.

  The record also holds what the Python runtime computes and the model does not: the
  float operations \<^verbatim>\<open>x - y\<close> (\<open>float_sub\<close>), \<^verbatim>\<open>sum(xs)\<close> (\<open>float_sum\<close>) and
  \<^verbatim>\<open>x / y\<close> (\<open>float_div\<close>), each the exact result rounded to a float, and the text
  pydantic gives the \<^verbatim>\<open>ValidationError\<close> it raises for the three values handed to
  \<^verbatim>\<open>ProxyResponse\<close> (\<open>validation_text\<close>).
\<close>

record net =
  http_get :: "string \<Rightarrow> pyexc + http_response"
  http_post :: "string \<Rightarrow> jdict \<Rightarrow> pyexc + http_response"
  clock_start :: "string \<Rightarrow> timestamp"
  clock_end :: "string \<Rightarrow> timestamp"
  utcnow :: "string \<Rightarrow> datetime"
  route_utcnow :: datetime
  float_sub :: "rat \<Rightarrow> rat \<Rightarrow> rat"
  float_sum :: "rat list \<Rightarrow> rat"
  float_div :: "rat \<Rightarrow> rat \<Rightarrow> rat"
  validation_text :: "jval \<Rightarrow> jval \<Rightarrow> jval \<Rightarrow> string"

text \<open>\<^verbatim>\<open>response.raise_for_status()\<close>: any status outside 2xx raises.\<close>

definition raise_for_status :: "http_response \<Rightarrow> pyexc + unit" where
  "raise_for_status r =
     (if 200 \<le> status_code r \<and> status_code r < 300 then Inr ()
      else Inl (HttpxError HTTPStatusError (status_text r)))"

text \<open>
  \<^verbatim>\<open>repr\<close> of a list of strings, for strings without quotes or escapes (the region
  names), and \<^verbatim>\<open>sep.join\<close>.
\<close>

fun join :: "string \<Rightarrow> string list \<Rightarrow> string" where
  "join sep [] = []"
| "join sep [x] = x"
| "join sep (x # y # ys) = x @ sep @ join sep (y # ys)"

definition py_repr_list :: "string list \<Rightarrow> string" where
  "py_repr_list xs = ''['' @ join '', '' (map (\<lambda>x. [CHR 0x27] @ x @ [CHR 0x27]) xs) @ '']''"

text \<open>
  \<^verbatim>\<open>await asyncio.gather(*tasks)\<close>: the results in the order of the tasks, or the first
  exception a task raised.
\<close>

fun gather :: "(pyexc + 'a) list \<Rightarrow> pyexc + 'a list" where
  "gather [] = Inr []"
| "gather (Inl e # rs) = Inl e"
| "gather (Inr v # rs) = (case gather rs of Inl e \<Rightarrow> Inl e | Inr vs \<Rightarrow> Inr (v # vs))"

text \<open>
  \<^verbatim>\<open>random.choice(seq)\<close>: \<^verbatim>\<open>IndexError\<close> on an empty sequence, and otherwise the
  element at an index below the length, here the draw \<open>rnd\<close> of the generator reduced
  modulo the length.
\<close>

definition random_choice :: "nat \<Rightarrow> 'a list \<Rightarrow> pyexc + 'a" where
  "random_choice rnd xs =
     (if xs = [] then Inl (IndexError ''Cannot choose from an empty sequence'')
      else Inr (xs ! (rnd mod length xs)))"

section \<open>\<^verbatim>\<open>check_proxy_health\<close>\<close>

text \<open>
  The \<^verbatim>\<open>try\<close> block is the request and \<^verbatim>\<open>raise_for_status\<close>; the handler is
  \<^verbatim>\<open>except Exception\<close>, which catches every value of \<open>pyexc\<close>.
\<close>

definition check_proxy_health :: "net \<Rightarrow> string \<Rightarrow> string \<Rightarrow> pyexc + health_result" where
  "check_proxy_health N endpoint region =
     (let start_time = clock_start N endpoint;
          attempt =
            (case http_get N (endpoint @ ''/health'') of
               Inl e \<Rightarrow> Inl e
             | Inr response \<Rightarrow>
                 (case raise_for_status response of
                    Inl e \<Rightarrow> Inl e
                  | Inr _ \<Rightarrow> Inr (float_sub N (clock_end N endpoint) start_time)))
      in case attempt of
           Inr response_time \<Rightarrow>
             Inr \<lparr>hr_region = region, hr_is_healthy = True,
                  hr_response_time = response_time,
                  hr_last_checked = utcnow N endpoint\<rparr>
         | Inl e \<Rightarrow>
             Inr \<lparr>hr_region = region, hr_is_healthy = False,
                  hr_response_time = float_sub N (clock_end N endpoint) start_time,
                  hr_last_checked = utcnow N endpoint\<rparr>)"

section \<open>The dependency \<^verbatim>\<open>verify_api_token\<close>\<close>

text \<open>
  Modelled from the spec: \<^verbatim>\<open>users.read_user_by_id\<close> is not among the sources. The
  spec has the gate "look up User by user_id via the external user-management
  collaborator", the user being found or absent; it is the parameter \<open>read_user_by_id\<close>,
  from the database and the claim's value to the user, if any.

  \<^verbatim>\<open>not x_api_key\<close> holds for a missing header and for an empty one;
  \<^verbatim>\<open>not token_data\<close> holds for \<^verbatim>\<open>None\<close> and for an empty dict. An exception of
  \<^verbatim>\<open>verify_api_key\<close> is not caught here.
\<close>

definition verify_api_token ::
  "jwt_lib \<Rightarrow> (world \<Rightarrow> jval \<Rightarrow> User option) \<Rightarrow> world \<Rightarrow> timestamp \<Rightarrow> string option
     \<Rightarrow> pyexc + User" where
  "verify_api_token L read_user_by_id w now x_api_key =
     (case x_api_key of
        None \<Rightarrow> Inl (HTTPException 401 ''API key required'')
      | Some k \<Rightarrow>
          if k = [] then Inl (HTTPException 401 ''API key required'')
          else
            (case verify_api_key L w now k of
               Inl e \<Rightarrow> Inl e
             | Inr None \<Rightarrow> Inl (HTTPException 401 ''Invalid API key'')
             | Inr (Some token_data) \<Rightarrow>
                 (case map_of token_data ''user_id'' of
                    None \<Rightarrow> Inl (HTTPException 401 ''Invalid API key'')
                  | Some v \<Rightarrow>
                      (case read_user_by_id w v of
                         None \<Rightarrow> Inl (HTTPException 401 ''Invalid or inactive user'')
                       | Some user \<Rightarrow>
                           if \<not> is_active user then
                             Inl (HTTPException 401 ''Invalid or inactive user'')
                           else if \<not> has_subscription user then
                             Inl (HTTPException 403 ''Active subscription required'')
                           else Inr user))))"

section \<open>The routes\<close>

text \<open>
  \<^verbatim>\<open>get_proxy_status\<close>, after its dependency has supplied \<open>user\<close>. The sum and the
  division are Python's on floats; the divisor is the count converted to a float.
\<close>

definition invalid_region :: pyexc where
  "invalid_region =
     HTTPException 400
       (''Invalid region. Available regions: '' @ py_repr_list (map fst REGION_ENDPOINTS))"

definition get_proxy_status :: "net \<Rightarrow> string \<Rightarrow> User \<Rightarrow> pyexc + ProxyStatusResponse" where
  "get_proxy_status N region user =
     (case map_of REGION_ENDPOINTS region of
        None \<Rightarrow> Inl invalid_region
      | Some endpoints \<Rightarrow>
          (case gather (map (\<lambda>endpoint. check_proxy_health N endpoint region) endpoints) of
             Inl e \<Rightarrow> Inl e
           | Inr results \<Rightarrow>
               (let healthy_count = length (filter hr_is_healthy results);
                    total_count = length endpoints;
                    avg_response_time =
                      (if total_count > 0
                       then float_div N (float_sum N (map hr_response_time results))
                              (of_nat total_count)
                       else 0);
                    status =
                      \<lparr>ps_region = region,
                       ps_is_healthy = (healthy_count > 0),
                       ps_avg_response_time = avg_response_time,
                       ps_healthy_endpoints = healthy_count,
                       ps_total_endpoints = total_count,
                       ps_last_checked =
                         (case results of r # _ \<Rightarrow> hr_last_checked r | [] \<Rightarrow> route_utcnow N)\<rparr>
                in Inr \<lparr>statuses = [status]\<rparr>)))"

text \<open>
  Reading the upstream body into the reply: \<^verbatim>\<open>data[k]\<close> raises \<^verbatim>\<open>KeyError\<close> for a
  missing key, and the model \<^verbatim>\<open>ProxyResponse\<close> declares each field a \<^verbatim>\<open>str\<close>, so a
  value that is not a string fails validation (pydantic 2 does not turn a number into a
  string), with the text of \<open>validation_text\<close>.
\<close>

definition str_field :: "jdict \<Rightarrow> string \<Rightarrow> pyexc + jval" where
  "str_field data k = (case map_of data k of None \<Rightarrow> Inl (KeyError k) | Some v \<Rightarrow> Inr v)"

definition ProxyResponse_init ::
  "net \<Rightarrow> jval \<Rightarrow> jval \<Rightarrow> jval \<Rightarrow> string \<Rightarrow> pyexc + ProxyResponse" where
  "ProxyResponse_init N r ip dev region =
     (case (r, ip, dev) of
        (JStr r', JStr ip', JStr dev') \<Rightarrow>
          Inr \<lparr>pr_result = r', pr_public_ip = ip', pr_device_id = dev', pr_region_used = region\<rparr>
      | _ \<Rightarrow> Inl (ValidationError (validation_text N r ip dev)))"

text \<open>The \<^verbatim>\<open>try\<close> block of \<^verbatim>\<open>proxy_fetch\<close>: one POST, then the reply built from its body.\<close>

definition forward :: "net \<Rightarrow> string \<Rightarrow> string \<Rightarrow> ProxyRequest \<Rightarrow> pyexc + ProxyResponse" where
  "forward N selected_endpoint region request =
     (case http_post N (selected_endpoint @ ''/fetch'') [(''url'', JStr (url request))] of
        Inl e \<Rightarrow> Inl e
      | Inr response \<Rightarrow>
     (case raise_for_status response of
        Inl e \<Rightarrow> Inl e
      | Inr _ \<Rightarrow>
     (case json response of
        Inl e \<Rightarrow> Inl e
      | Inr data \<Rightarrow>
     (case str_field data ''result'' of Inl e \<Rightarrow> Inl e | Inr r \<Rightarrow>
     (case str_field data ''public_ip'' of Inl e \<Rightarrow> Inl e | Inr ip \<Rightarrow>
     (case str_field data ''device_id'' of Inl e \<Rightarrow> Inl e | Inr dev \<Rightarrow>
        ProxyResponse_init N r ip dev region))))))"

text \<open>
  \<^verbatim>\<open>proxy_fetch\<close>, after its dependency has supplied \<open>user\<close>. The first component of
  the result lists the POST requests the call has issued, each with its address and
  JSON body; the second is the reply or the exception raised. \<^verbatim>\<open>results\<close> has one
  verdict for each endpoint, so the index \<^verbatim>\<open>endpoints[i]\<close> of the comprehension is
  always in range.
\<close>

definition proxy_fetch ::
  "net \<Rightarrow> nat \<Rightarrow> string \<Rightarrow> ProxyRequest \<Rightarrow> User
     \<Rightarrow> (string \<times> jdict) list \<times> (pyexc + ProxyResponse)" where
  "proxy_fetch N rnd region request user =
     (case map_of REGION_ENDPOINTS region of
        None \<Rightarrow> ([], Inl invalid_region)
      | Some endpoints \<Rightarrow>
          (case gather (map (\<lambda>endpoint. check_proxy_health N endpoint region) endpoints) of
             Inl e \<Rightarrow> ([], Inl e)
           | Inr results \<Rightarrow>
               (let healthy_endpoints =
                      map (\<lambda>(i, r). endpoints ! i)
                        (filter (\<lambda>(i, r). hr_is_healthy r) (List.enumerate 0 results))
                in if healthy_endpoints = [] then
                     ([], Inl (HTTPException 503
                        (''No healthy proxy endpoints available in '' @ region)))
                   else
                     (case random_choice rnd healthy_endpoints of
                        Inl e \<Rightarrow> ([], Inl e)
                      | Inr selected_endpoint \<Rightarrow>
                          (let posts = [(selected_endpoint @ ''/fetch'',
                                         [(''url'', JStr (url request))])]
                           in case forward N selected_endpoint region request of
                                Inr reply \<Rightarrow> (posts, Inr reply)
                              | Inl e \<Rightarrow>
                                  (posts, Inl (HTTPException 500
                                     (''Proxy request failed in '' @ region @ '': ''
                                        @ py_str e))))))))"

text \<open>
  A protected route as FastAPI runs it: the dependency first, and the route body only
  with the user it returned.
\<close>

definition fetch_route ::
  "jwt_lib \<Rightarrow> (world \<Rightarrow> jval \<Rightarrow> User option) \<Rightarrow> world \<Rightarrow> timestamp \<Rightarrow> net \<Rightarrow> nat
     \<Rightarrow> string option \<Rightarrow> string \<Rightarrow> ProxyRequest
     \<Rightarrow> (string \<times> jdict) list \<times> (pyexc + ProxyResponse)" where
  "fetch_route L read_user_by_id w now N rnd x_api_key region request =
     (case verify_api_token L read_user_by_id w now x_api_key of
        Inl e \<Rightarrow> ([], Inl e)
      | Inr user \<Rightarrow> proxy_fetch N rnd region request user)"

section \<open>\<^verbatim>\<open>list_user_api_keys\<close>\<close>

definition FRONT_PREVIEW_LENGTH :: nat where
  "FRONT_PREVIEW_LENGTH = 8"

definition END_PREVIEW_LENGTH :: nat where
  "END_PREVIEW_LENGTH = 8"

text \<open>
  Python's slices never raise on a string: \<^verbatim>\<open>s[:n]\<close> is at most the first \<open>n\<close>
  characters, and \<^verbatim>\<open>s[-n:]\<close> at most the last \<open>n\<close> (all of \<open>s\<close> when \<open>n\<close> is zero
  or exceeds the length).
\<close>

definition slice_to :: "nat \<Rightarrow> string \<Rightarrow> string" where
  "slice_to n s = take n s"

definition slice_last :: "nat \<Rightarrow> string \<Rightarrow> string" where
  "slice_last n s = (if n = 0 then s else drop (length s - n) s)"

definition key_preview :: "string \<Rightarrow> string" where
  "key_preview t = slice_to FRONT_PREVIEW_LENGTH t @ ''...'' @ slice_last END_PREVIEW_LENGTH t"

text \<open>
  \<^verbatim>\<open>datetime.isoformat()\<close> of a naive datetime:
  \<^verbatim>\<open>'%04d-%02d-%02dT%02d:%02d:%02d'\<close>, followed by \<^verbatim>\<open>'.%06d'\<close> of the microseconds
  when they are not zero.
\<close>

definition digit_char :: "nat \<Rightarrow> char" where
  "digit_char d = ''0123456789'' ! d"

function str_nat :: "nat \<Rightarrow> string" where
  "str_nat n = (if n < 10 then [digit_char n] else str_nat (n div 10) @ [digit_char (n mod 10)])"
  by pat_completeness auto
termination
  by (relation "measure (\<lambda>n. n)") auto

declare str_nat.simps [simp del]

text \<open>\<^verbatim>\<open>'%0wd' % n\<close>: the decimal digits, padded with zeros on the left up to width \<open>w\<close>.\<close>

definition zpad :: "nat \<Rightarrow> nat \<Rightarrow> string" where
  "zpad w n = replicate (w - length (str_nat n)) CHR ''0'' @ str_nat n"

definition isoformat :: "datetime \<Rightarrow> string" where
  "isoformat d =
     zpad 4 (year d) @ ''-'' @ zpad 2 (month d) @ ''-'' @ zpad 2 (day d) @ ''T''
       @ zpad 2 (hour d) @ '':'' @ zpad 2 (minute d) @ '':'' @ zpad 2 (second d)
       @ (if microsecond d = 0 then [] else ''.'' @ zpad 6 (microsecond d))"

text \<open>The ranges that Python's \<^verbatim>\<open>datetime\<close> enforces on its fields.\<close>

definition valid_datetime :: "datetime \<Rightarrow> bool" where
  "valid_datetime d =
     (1 \<le> year d \<and> year d \<le> 9999 \<and> 1 \<le> month d \<and> month d \<le> 12
      \<and> 1 \<le> day d \<and> day d \<le> 31 \<and> hour d < 24 \<and> minute d < 60 \<and> second d < 60
      \<and> microsecond d < 1000000)"

text \<open>
  The route, after its dependency has supplied \<open>current_user\<close>. The query keeps the
  rows of this user whose \<^verbatim>\<open>is_active\<close> column is true, in table order.
\<close>

definition list_user_api_keys :: "world \<Rightarrow> User \<Rightarrow> pyexc + APIKeyResponse list" where
  "list_user_api_keys w current_user =
     (if \<not> has_subscription current_user then
        Inl (HTTPException 403 ''Active subscription required'')
      else
        (let rows = filter (\<lambda>t. user_id t = User_id current_user \<and> token_is_active t = True)
                      (api_tokens w);
             key_list =
               map (\<lambda>t. \<lparr>akr_key_preview = key_preview (token t),
                         akr_created_at = isoformat (created_at t),
                         akr_expires_at = isoformat (expires_at t),
                         akr_is_active = token_is_active t\<rparr>) rows
         in Inr key_list))"

text \<open>
  The shape of an ISO-8601 date and time as the spec asks for it, read off a string:
  \<^verbatim>\<open>YYYY-MM-DDTHH:MM:SS\<close>, optionally followed by a dot and a fraction of digits.
\<close>

definition is_digit :: "char \<Rightarrow> bool" where
  "is_digit c = (c \<in> set ''0123456789'')"

datatype cclass = Digit | Lit char

fun matches :: "cclass list \<Rightarrow> string \<Rightarrow> bool" where
  "matches [] [] = True"
| "matches (Digit # ps) (c # cs) = (is_digit c \<and> matches ps cs)"
| "matches (Lit x # ps) (c # cs) = (c = x \<and> matches ps cs)"
| "matches _ _ = False"

definition iso8601_pattern :: "cclass list" where
  "iso8601_pattern =
     [Digit, Digit, Digit, Digit, Lit CHR ''-'', Digit, Digit, Lit CHR ''-'', Digit, Digit,
      Lit CHR ''T'', Digit, Digit, Lit CHR '':'', Digit, Digit, Lit CHR '':'', Digit, Digit]"

definition is_iso8601 :: "string \<Rightarrow> bool" where
  "is_iso8601 s =
     (matches iso8601_pattern (take 19 s)
      \<and> (case drop 19 s of
            [] \<Rightarrow> True
          | c # ds \<Rightarrow> c = CHR ''.'' \<and> ds \<noteq> [] \<and> list_all is_digit ds))"

section \<open>Properties of the library that the token round trip rests on\<close>

text \<open>
  For one key and one payload: the header and the payload survive serialisation and
  base64url, the signature survives base64url, and neither the header segment nor the
  signature segment contains a dot (base64url has none in its alphabet).
\<close>

definition codec_ok :: "jwt_lib \<Rightarrow> string \<Rightarrow> jdict \<Rightarrow> bool" where
  "codec_ok L key payload =
     (let header_json = json_dumps L (jwt_header ALGORITHM);
          payload_json = json_dumps L payload;
          header_segment = b64_encode L header_json;
          payload_segment = b64_encode L payload_json;
          mac = hmac_sha256 L key (header_segment @ ''.'' @ payload_segment)
      in json_loads L header_json = Some (jwt_header ALGORITHM)
         \<and> json_loads L payload_json = Some payload
         \<and> b64_decode L header_segment = Some header_json
         \<and> b64_decode L payload_segment = Some payload_json
         \<and> b64_decode L (b64_encode L mac) = Some mac
         \<and> CHR ''.'' \<notin> set header_segment
         \<and> CHR ''.'' \<notin> set (b64_encode L mac))"

section \<open>Sample values\<close>

text \<open>
  One HS256 token, for the key \<^verbatim>\<open>secret\<close> and the claims of user \<^verbatim>\<open>42\<close> issued at
  time 1000.5: the library's primitives are tabulated on the strings this token is made
  of (the MAC is written in hexadecimal).
\<close>

definition sample_claims :: jdict where
  "sample_claims = api_key_claims (2001 / 2) (2001 / 2) ''42''"

definition sample_header_json :: string where
  \<open>sample_header_json = ''{"alg":"HS256","typ":"JWT"}''\<close>

definition sample_claims_json :: string where
  \<open>sample_claims_json = ''{"user_id":"42","iat":1000.5,"exp":31537000.5}''\<close>

definition sample_header_segment :: string where
  "sample_header_segment = ''eyJhbGciOiJIUzI1NiIsInR5cCI6IkpXVCJ9''"

definition sample_claims_segment :: string where
  "sample_claims_segment = ''eyJ1c2VyX2lkIjoiNDIiLCJpYXQiOjEwMDAuNSwiZXhwIjozMTUzNzAwMC41fQ''"

definition sample_mac :: string where
  "sample_mac = ''e00570d21ca8d56a1800850feec8807d11d500ea344ad8f84411dd69711d73f5''"

definition sample_signature_segment :: string where
  "sample_signature_segment = ''4AVw0hyo1WoYAIUP7siAfRHVAOo0Stj4RBHdaXEdc_U''"

definition sample_lib :: jwt_lib where
  "sample_lib =
     \<lparr>json_dumps = (\<lambda>d. if d = jwt_header ''HS256'' then sample_header_json
                          else if d = sample_claims then sample_claims_json else ''{}''),
      json_loads = (\<lambda>s. if s = sample_header_json then Some (jwt_header ''HS256'')
                          else if s = sample_claims_json then Some sample_claims
                          else if s = ''{}'' then Some [] else None),
      b64_encode = (\<lambda>s. if s = sample_header_json then sample_header_segment
                          else if s = sample_claims_json then sample_claims_segment
                          else if s = sample_mac then sample_signature_segment else []),
      b64_decode = (\<lambda>s. if s = sample_header_segment then Some sample_header_json
                          else if s = sample_claims_segment then Some sample_claims_json
                          else if s = sample_signature_segment then Some sample_mac
                          else None),
      hmac_sha256 = (\<lambda>key msg.
                       if key = ''secret''
                          \<and> msg = sample_header_segment @ ''.'' @ sample_claims_segment
                       then sample_mac else []),
      int_of_str = (\<lambda>s. None)\<rparr>"

definition sample_token :: string where
  "sample_token =
     sample_header_segment @ ''.'' @ sample_claims_segment @ ''.'' @ sample_signature_segment"

definition sample_datetime :: datetime where
  "sample_datetime =
     \<lparr>year = 2025, month = 3, day = 19, hour = 16, minute = 11, second = 30,
      microsecond = 715497\<rparr>"

definition sample_expiry :: datetime where
  "sample_expiry =
     \<lparr>year = 2026, month = 3, day = 19, hour = 16, minute = 11, second = 30,
      microsecond = 0\<rparr>"

definition sample_user :: User where
  "sample_user = \<lparr>User_id = ''42'', is_active = True, has_subscription = True\<rparr>"

definition sample_row :: "string \<Rightarrow> bool \<Rightarrow> APIToken" where
  "sample_row t active =
     \<lparr>user_id = ''42'', token = t, created_at = sample_datetime,
      expires_at = sample_expiry, token_is_active = active\<rparr>"

definition sample_world :: "APIToken list \<Rightarrow> world" where
  "sample_world rows = \<lparr>SECRET_KEY = ''secret'', api_tokens = rows, users = [sample_user]\<rparr>"

text \<open>A lookup of the user row by the claim's value, for the sample database.\<close>

definition sample_lookup :: "world \<Rightarrow> jval \<Rightarrow> User option" where
  "sample_lookup w v = find (\<lambda>u. JStr (User_id u) = v) (users w)"

text \<open>
  A network in which the first endpoint of region \<^verbatim>\<open>asia\<close> answers its health check
  with status 200 after a quarter of a second and serves the forwarded request, and
  every other request times out after five seconds; and a network in which every
  request times out. The numbers involved are exact in floats, so the float operations
  are the exact ones here.
\<close>

definition sample_body :: jdict where
  "sample_body =
     [(''result'', JStr ''<html></html>''), (''public_ip'', JStr ''203.0.113.7''),
      (''device_id'', JStr ''device-1'')]"

definition sample_ok :: http_response where
  "sample_ok = \<lparr>status_code = 200, status_text = [], json = Inr sample_body\<rparr>"

definition asia1 :: string where
  "asia1 = ''https://asia-east1-proxy6-455014.cloudfunctions.net/main''"

definition asia2 :: string where
  "asia2 = ''https://asia-northeast2-proxy6-455014.cloudfunctions.net/main''"

definition sample_request :: ProxyRequest where
  "sample_request = \<lparr>url = ''https://example.org/''\<rparr>"

definition sample_net :: net where
  "sample_net =
     \<lparr>http_get = (\<lambda>u. if u = asia1 @ ''/health'' then Inr sample_ok
                        else Inl (HttpxError TimeoutException ''timed out'')),
      http_post = (\<lambda>u body. if u = asia1 @ ''/fetch'' then Inr sample_ok
                        else Inl (HttpxError TimeoutException ''timed out'')),
      clock_start = (\<lambda>e. 100),
      clock_end = (\<lambda>e. if e = asia1 then 401 / 4 else 105),
      utcnow = (\<lambda>e. sample_datetime),
      route_utcnow = sample_datetime,
      float_sub = (\<lambda>x y. x - y),
      float_sum = sum_list,
      float_div = (\<lambda>x y. x / y),
      validation_text = (\<lambda>r ip dev. ''3 validation errors for ProxyResponse'')\<rparr>"

definition dead_net :: net where
  "dead_net =
     \<lparr>http_get = (\<lambda>u. Inl (HttpxError TimeoutException ''timed out'')),
      http_post = (\<lambda>u body. Inl (HttpxError TimeoutException ''timed out'')),
      clock_start = (\<lambda>e. 100),
      clock_end = (\<lambda>e. 105),
      utcnow = (\<lambda>e. sample_datetime),
      route_utcnow = sample_datetime,
      float_sub = (\<lambda>x y. x - y),
      float_sum = sum_list,
      float_div = (\<lambda>x y. x / y),
      validation_text = (\<lambda>r ip dev. ''3 validation errors for ProxyResponse'')\<rparr>"

text \<open>
  A network in which both endpoints of region \<^verbatim>\<open>asia\<close> answer their health checks
  with status 200, but the wall clock is set back by two seconds while the probes run, so
  that each probe reads 100 when it starts and 99 when its answer is there.
\<close>

definition back_net :: net where
  "back_net =
     \<lparr>http_get = (\<lambda>u. Inr sample_ok),
      http_post = (\<lambda>u body. Inr sample_ok),
      clock_start = (\<lambda>e. 100),
      clock_end = (\<lambda>e. 99),
      utcnow = (\<lambda>e. sample_datetime),
      route_utcnow = sample_datetime,
      float_sub = (\<lambda>x y. x - y),
      float_sum = sum_list,
      float_div = (\<lambda>x y. x / y),
      validation_text = (\<lambda>r ip dev. ''3 validation errors for ProxyResponse'')\<rparr>"

text \<open>
  A network in which both endpoints of region \<^verbatim>\<open>asia\<close> are healthy and each serves
  the forwarded request from its own public address and device.
\<close>

definition second_body :: jdict where
  "second_body =
     [(''result'', JStr ''<html></html>''), (''public_ip'', JStr ''198.51.100.9''),
      (''device_id'', JStr ''device-2'')]"

definition both_net :: net where
  "both_net =
     \<lparr>http_get = (\<lambda>u. Inr sample_ok),
      http_post = (\<lambda>u body. if u = asia1 @ ''/fetch'' then Inr sample_ok
                        else Inr \<lparr>status_code = 200, status_text = [], json = Inr second_body\<rparr>),
      clock_start = (\<lambda>e. 100),
      clock_end = (\<lambda>e. 401 / 4),
      utcnow = (\<lambda>e. sample_datetime),
      route_utcnow = sample_datetime,
      float_sub = (\<lambda>x y. x - y),
      float_sum = sum_list,
      float_div = (\<lambda>x y. x / y),
      validation_text = (\<lambda>r ip dev. ''3 validation errors for ProxyResponse'')\<rparr>"

section \<open>Token verification\<close>

subsection \<open>Splitting and decoding\<close>

lemma split1_append:
  "c \<notin> set a \<Longrightarrow> split1 c (a @ c # b) = Some (a, b)"
  by (induction a) auto

lemma rsplit1_append:
  "c \<notin> set b \<Longrightarrow> rsplit1 c (a @ c # b) = Some (a, b)"
  using split1_append [of c "rev b" "rev a"] by (simp add: rsplit1_def)

lemma split1_no_sep: "c \<notin> set s \<Longrightarrow> split1 c s = None"
  by (induction s) auto

lemma rsplit1_no_sep: "c \<notin> set s \<Longrightarrow> rsplit1 c s = None"
  by (simp add: rsplit1_def split1_no_sep)

lemma jwt_decode_no_dot:
  "CHR ''.'' \<notin> set tok \<Longrightarrow> jwt_decode L now tok key algs = Inl DecodeError"
  by (simp add: jwt_decode_def rsplit1_no_sep)

lemma py_trunc_le: "0 \<le> r \<Longrightarrow> of_int (py_trunc r) \<le> r"
  by (simp add: py_trunc_def)

lemma py_trunc_gt: "0 \<le> r \<Longrightarrow> r - 1 < of_int (py_trunc r)"
  by (simp add: py_trunc_def) linarith

text \<open>Decoding what \<^verbatim>\<open>jwt.encode\<close> produced leaves only the claim checks.\<close>

lemma jwt_decode_encode:
  assumes "codec_ok L key payload"
  shows "jwt_decode L now (jwt_encode L payload key ALGORITHM) key [ALGORITHM] =
           (case validate_claims L now payload of Some e \<Rightarrow> Inl e | None \<Rightarrow> Inr payload)"
proof -
  define hs where "hs = b64_encode L (json_dumps L (jwt_header ALGORITHM))"
  define ps where "ps = b64_encode L (json_dumps L payload)"
  define mac where "mac = hmac_sha256 L key (hs @ ''.'' @ ps)"
  define sg where "sg = b64_encode L mac"
  have ok: "json_loads L (json_dumps L (jwt_header ALGORITHM)) = Some (jwt_header ALGORITHM)"
    "json_loads L (json_dumps L payload) = Some payload"
    "b64_decode L hs = Some (json_dumps L (jwt_header ALGORITHM))"
    "b64_decode L ps = Some (json_dumps L payload)"
    "b64_decode L sg = Some mac"
    "CHR ''.'' \<notin> set hs" "CHR ''.'' \<notin> set sg"
    using assms by (simp_all add: codec_ok_def Let_def hs_def ps_def mac_def sg_def)
  have enc: "jwt_encode L payload key ALGORITHM = (hs @ ''.'' @ ps) @ CHR ''.'' # sg"
    by (simp add: jwt_encode_def Let_def hs_def ps_def mac_def sg_def)
  have r: "rsplit1 CHR ''.'' ((hs @ ''.'' @ ps) @ CHR ''.'' # sg) = Some (hs @ ''.'' @ ps, sg)"
    using ok(7) by (rule rsplit1_append)
  have s: "split1 CHR ''.'' (hs @ CHR ''.'' # ps) = Some (hs, ps)"
    using ok(6) by (rule split1_append)
  have alg: "map_of (jwt_header ALGORITHM) ''alg'' = Some (JStr ALGORITHM)"
    by (simp add: jwt_header_def)
  have ne: "ALGORITHM \<noteq> []" by (simp add: ALGORITHM_def)
  show ?thesis
    unfolding enc jwt_decode_def r
    by (simp add: s ok alg ne mac_def)
qed

lemma validate_claims_api_key:
  "validate_claims L now (api_key_claims now_iat now_exp uid) =
     (if now < of_int (py_trunc now_iat) then Some ImmatureSignatureError
      else if of_int (py_trunc (now_exp + days 365)) \<le> now then Some ExpiredSignatureError
      else None)"
  by (simp add: validate_claims_def api_key_claims_def py_int_def Let_def)

lemma verify_generated:
  assumes "codec_ok L (SECRET_KEY w) (api_key_claims now_iat now_exp uid)"
  shows "verify_api_key L w now (generate_api_key L w now_iat now_exp uid) =
     (if now < of_int (py_trunc now_iat) then Inl ImmatureSignatureError
      else if of_int (py_trunc (now_exp + days 365)) \<le> now then Inl ExpiredSignatureError
      else Inr (Some (api_key_claims now_iat now_exp uid)))"
  by (simp add: verify_api_key_def generate_api_key_def jwt_decode_encode [OF assms]
      validate_claims_api_key)

lemma sample_codec_ok: "codec_ok sample_lib ''secret'' sample_claims"
  by (simp add: codec_ok_def sample_lib_def Let_def ALGORITHM_def sample_header_json_def
      sample_claims_json_def sample_header_segment_def sample_claims_segment_def
      sample_mac_def sample_signature_segment_def sample_claims_def api_key_claims_def
      jwt_header_def)

lemma sample_generate:
  "generate_api_key sample_lib (sample_world rows) (2001 / 2) (2001 / 2) ''42'' = sample_token"
  by (simp add: generate_api_key_def jwt_encode_def sample_lib_def Let_def ALGORITHM_def
      sample_world_def sample_token_def sample_claims_def api_key_claims_def jwt_header_def
      sample_header_json_def sample_claims_json_def sample_header_segment_def
      sample_claims_segment_def sample_mac_def sample_signature_segment_def)

text \<open>
  Every exception of the modelled \<^verbatim>\<open>jwt.decode\<close> is one of PyJWT's, so the handler of
  \<^verbatim>\<open>verify_api_key\<close> never runs and the function never returns \<^verbatim>\<open>None\<close>.
\<close>

lemma validate_claims_raises_pyjwt:
  "validate_claims L now payload = Some e \<Longrightarrow> \<not> isinstance_JWTError e"
  by (auto simp add: validate_claims_def Let_def split: option.splits if_splits)

lemma jwt_decode_raises_pyjwt:
  "jwt_decode L now tok key algs = Inl e \<Longrightarrow> \<not> isinstance_JWTError e"
  by (auto simp add: jwt_decode_def split: option.splits prod.splits jval.splits if_splits
      dest: validate_claims_raises_pyjwt)

lemma verify_api_key_eq_decode:
  "verify_api_key L w now api_key =
     (case jwt_decode L now api_key (SECRET_KEY w) [ALGORITHM] of
        Inl e \<Rightarrow> Inl e | Inr payload \<Rightarrow> Inr (Some payload))"
  by (auto simp add: verify_api_key_def split: sum.splits dest: jwt_decode_raises_pyjwt)

lemma verify_api_key_never_None: "verify_api_key L w now api_key \<noteq> Inr None"
  by (simp add: verify_api_key_eq_decode split: sum.splits)

subsection \<open>What \<^verbatim>\<open>verify_api_key\<close> does with a token that does not verify\<close>

text \<open>
  Claim C2 says that \<^verbatim>\<open>verify_api_key\<close> never raises to its caller and returns the
  failure value for a token that does not verify. The function does not do that: for
  the key \<^verbatim>\<open>abc\<close>, which has no dot and so fewer than three segments,
  \<^verbatim>\<open>jwt.decode\<close> raises PyJWT's \<^verbatim>\<open>DecodeError\<close>, the \<^verbatim>\<open>except\<close> clause names
  python-jose's \<^verbatim>\<open>JWTError\<close>, and the exception leaves the function.
\<close>

theorem verify_api_key_raises_on_malformed:
  "verify_api_key L w now ''abc'' = Inl DecodeError"
  by (simp add: verify_api_key_def jwt_decode_no_dot)

text \<open>
  Claim C1 says that a request whose token fails verification is answered with status
  401 by the gate. The gate does not catch what \<^verbatim>\<open>verify_api_key\<close> raises: for the
  header value \<^verbatim>\<open>abc\<close> the dependency ends with PyJWT's \<^verbatim>\<open>DecodeError\<close>, which is
  no \<^verbatim>\<open>HTTPException\<close>, so the request is not answered with 401.
\<close>

theorem verify_api_token_propagates_decode_error:
  "verify_api_token L read_user_by_id w now (Some ''abc'') = Inl DecodeError"
  by (simp add: verify_api_token_def verify_api_key_def jwt_decode_no_dot)

text \<open>
  The other steps of the gate: a missing or empty header gives 401; once a token has
  verified, a payload without \<^verbatim>\<open>user_id\<close> gives 401, an unknown or inactive user
  401, a user without subscription 403, and otherwise the user is returned. The route
  body runs only with a user the gate returned.
\<close>

lemma verify_api_token_authorized:
  assumes "verify_api_token L read_user_by_id w now x_api_key = Inr user"
  shows "\<exists>k payload v. x_api_key = Some k \<and> k \<noteq> []
           \<and> verify_api_key L w now k = Inr (Some payload)
           \<and> map_of payload ''user_id'' = Some v
           \<and> read_user_by_id w v = Some user
           \<and> is_active user \<and> has_subscription user"
  using assms
  by (auto simp add: verify_api_token_def split: option.splits sum.splits if_splits)

lemma verify_api_token_after_verification:
  assumes "k \<noteq> []" and "verify_api_key L w now k = Inr (Some payload)"
  shows "verify_api_token L read_user_by_id w now (Some k) =
     (case map_of payload ''user_id'' of
        None \<Rightarrow> Inl (HTTPException 401 ''Invalid API key'')
      | Some v \<Rightarrow>
          (case read_user_by_id w v of
             None \<Rightarrow> Inl (HTTPException 401 ''Invalid or inactive user'')
           | Some user \<Rightarrow>
               if \<not> is_active user then Inl (HTTPException 401 ''Invalid or inactive user'')
               else if \<not> has_subscription user
               then Inl (HTTPException 403 ''Active subscription required'')
               else Inr user))"
  using assms by (simp add: verify_api_token_def)

lemma verify_api_token_missing:
  "verify_api_token L read_user_by_id w now None = Inl (HTTPException 401 ''API key required'')"
  "verify_api_token L read_user_by_id w now (Some []) = Inl (HTTPException 401 ''API key required'')"
  by (simp_all add: verify_api_token_def)

lemma fetch_route_needs_authorization:
  assumes "fetch_route L read_user_by_id w now N rnd x_api_key region request = (posts, Inr reply)"
  shows "\<exists>user. verify_api_token L read_user_by_id w now x_api_key = Inr user
           \<and> is_active user \<and> has_subscription user"
  using assms
  by (auto simp add: fetch_route_def split: sum.splits dest: verify_api_token_authorized)

lemma fetch_route_denied:
  assumes "verify_api_token L read_user_by_id w now x_api_key = Inl e"
  shows "fetch_route L read_user_by_id w now N rnd x_api_key region request = ([], Inl e)"
  using assms by (simp add: fetch_route_def)

subsection \<open>Issuing and verifying\<close>

text \<open>
  Claim C3: a token issued for a user verifies right after issuance and yields that
  user's id, and it no longer verifies once the time is at or past its expiry. Here
  \<open>now_iat\<close> and \<open>now_exp\<close> are the two clock readings of \<^verbatim>\<open>generate_api_key\<close>,
  both after the epoch; the token expires at \<open>now_exp + days 365\<close>; \<open>now\<close> is the time
  of verification. The token verifies from its issuance until one second before its
  expiry (the expiry is compared after truncation to whole seconds), giving back the
  claims with the user's id; from its expiry on, verification yields no claims.
\<close>

theorem api_key_round_trip:
  assumes "codec_ok L (SECRET_KEY w) (api_key_claims now_iat now_exp uid)"
    and "0 \<le> now_iat" and "0 \<le> now_exp"
  shows "(now_iat \<le> now \<and> now + 1 \<le> now_exp + days 365 \<longrightarrow>
            verify_api_key L w now (generate_api_key L w now_iat now_exp uid)
              = Inr (Some (api_key_claims now_iat now_exp uid))
            \<and> map_of (api_key_claims now_iat now_exp uid) ''user_id'' = Some (JStr uid))
       \<and> (now_exp + days 365 \<le> now \<longrightarrow>
            (\<forall>payload. verify_api_key L w now (generate_api_key L w now_iat now_exp uid)
               \<noteq> Inr (Some payload)))"
proof (intro conjI impI)
  assume h: "now_iat \<le> now \<and> now + 1 \<le> now_exp + days 365"
  have "of_int (py_trunc now_iat) \<le> now"
    using py_trunc_le [OF assms(2)] h by linarith
  moreover have "0 \<le> now_exp + days 365"
    using assms(3) by (simp add: days_def)
  then have "now < of_int (py_trunc (now_exp + days 365))"
    using py_trunc_gt [of "now_exp + days 365"] h by linarith
  ultimately show "verify_api_key L w now (generate_api_key L w now_iat now_exp uid)
              = Inr (Some (api_key_claims now_iat now_exp uid))"
    by (simp add: verify_generated [OF assms(1)])
next
  show "map_of (api_key_claims now_iat now_exp uid) ''user_id'' = Some (JStr uid)"
    by (simp add: api_key_claims_def)
next
  assume h: "now_exp + days 365 \<le> now"
  have "0 \<le> now_exp + days 365"
    using assms(3) by (simp add: days_def)
  then have "of_int (py_trunc (now_exp + days 365)) \<le> now"
    using py_trunc_le [of "now_exp + days 365"] h by linarith
  then show "\<forall>payload. verify_api_key L w now (generate_api_key L w now_iat now_exp uid)
               \<noteq> Inr (Some payload)"
    by (simp add: verify_generated [OF assms(1)])
qed

theorem api_key_round_trip_witness:
  "codec_ok sample_lib (SECRET_KEY (sample_world [])) (api_key_claims (2001 / 2) (2001 / 2) ''42'')
   \<and> verify_api_key sample_lib (sample_world []) 1001
        (generate_api_key sample_lib (sample_world []) (2001 / 2) (2001 / 2) ''42'')
       = Inr (Some (api_key_claims (2001 / 2) (2001 / 2) ''42''))
   \<and> verify_api_key sample_lib (sample_world []) 31537001
        (generate_api_key sample_lib (sample_world []) (2001 / 2) (2001 / 2) ''42'')
       \<noteq> Inr (Some (api_key_claims (2001 / 2) (2001 / 2) ''42''))"
proof -
  have c: "codec_ok sample_lib (SECRET_KEY (sample_world []))
             (api_key_claims (2001 / 2) (2001 / 2) ''42'')"
    using sample_codec_ok by (simp add: sample_world_def sample_claims_def)
  have a: "(0::rat) \<le> 2001 / 2" by simp
  note t = api_key_round_trip [OF c a a]
  have "verify_api_key sample_lib (sample_world []) 1001
        (generate_api_key sample_lib (sample_world []) (2001 / 2) (2001 / 2) ''42'')
       = Inr (Some (api_key_claims (2001 / 2) (2001 / 2) ''42''))"
    using t [of 1001] by (simp add: days_def)
  moreover have "verify_api_key sample_lib (sample_world []) 31537001
        (generate_api_key sample_lib (sample_world []) (2001 / 2) (2001 / 2) ''42'')
       \<noteq> Inr (Some (api_key_claims (2001 / 2) (2001 / 2) ''42''))"
    using t [of 31537001] by (simp add: days_def)
  ultimately show ?thesis using c by simp
qed

subsection \<open>Verification and the database\<close>

lemma sample_verify:
  "verify_api_key sample_lib (sample_world rows) 1001 sample_token = Inr (Some sample_claims)"
proof -
  have c: "codec_ok sample_lib (SECRET_KEY (sample_world rows))
             (api_key_claims (2001 / 2) (2001 / 2) ''42'')"
    using sample_codec_ok by (simp add: sample_world_def sample_claims_def)
  show ?thesis
    using verify_generated [OF c, of 1001]
    by (simp add: sample_generate sample_claims_def py_trunc_def days_def)
qed

text \<open>The same token after its expiry: the exception is PyJWT's and is not caught.\<close>

lemma sample_verify_expired:
  "verify_api_key sample_lib (sample_world rows) 31537001 sample_token
     = Inl ExpiredSignatureError"
proof -
  have c: "codec_ok sample_lib (SECRET_KEY (sample_world rows))
             (api_key_claims (2001 / 2) (2001 / 2) ''42'')"
    using sample_codec_ok by (simp add: sample_world_def sample_claims_def)
  show ?thesis
    using verify_generated [OF c, of 31537001]
    by (simp add: sample_generate py_trunc_def days_def)
qed

text \<open>
  Claim C9: the outcome of \<^verbatim>\<open>verify_api_key\<close> is determined by the token string,
  the secret key, the algorithm (a constant of the module) and the current time. Two
  states of the world that agree on the secret key give the same outcome for the same
  token at the same time, whatever rows their databases hold; in particular the
  \<^verbatim>\<open>is_active\<close> column of the token's row is not read.
\<close>

theorem verify_api_key_ignores_store:
  "SECRET_KEY w1 = SECRET_KEY w2 \<Longrightarrow>
     verify_api_key L w1 now api_key = verify_api_key L w2 now api_key"
  by (simp add: verify_api_key_def)

theorem verify_api_key_ignores_store_witness:
  "SECRET_KEY (sample_world [sample_row sample_token True])
     = SECRET_KEY (sample_world [sample_row sample_token False])
   \<and> verify_api_key sample_lib (sample_world [sample_row sample_token True]) 1001 sample_token
     = verify_api_key sample_lib (sample_world [sample_row sample_token False]) 1001 sample_token
   \<and> verify_api_key sample_lib (sample_world [sample_row sample_token False]) 1001 sample_token
     = Inr (Some sample_claims)"
proof -
  have k: "SECRET_KEY (sample_world [sample_row sample_token True])
     = SECRET_KEY (sample_world [sample_row sample_token False])"
    by (simp add: sample_world_def)
  show ?thesis
    using k verify_api_key_ignores_store [OF k, of sample_lib 1001 sample_token]
    by (simp add: sample_verify)
qed

section \<open>Health probes and the region status\<close>

text \<open>The value \<^verbatim>\<open>check_proxy_health\<close> returns, in closed form.\<close>

lemma check_proxy_health_value:
  "check_proxy_health N endpoint region =
     Inr \<lparr>hr_region = region,
          hr_is_healthy =
            (case http_get N (endpoint @ ''/health'') of
               Inl e \<Rightarrow> False
             | Inr response \<Rightarrow> 200 \<le> status_code response \<and> status_code response < 300),
          hr_response_time = float_sub N (clock_end N endpoint) (clock_start N endpoint),
          hr_last_checked = utcnow N endpoint\<rparr>"
  by (simp add: check_proxy_health_def raise_for_status_def Let_def split: sum.split)

lemma gather_Inr: "gather (map Inr vs) = Inr vs"
  by (induction vs) simp_all

lemma registry_nonempty:
  "map_of REGION_ENDPOINTS region = Some endpoints \<Longrightarrow> endpoints \<noteq> []"
  by (auto simp add: REGION_ENDPOINTS_def split: if_splits)

lemma probes_gathered:
  "gather (map (\<lambda>e. check_proxy_health N e region) endpoints)
     = Inr (map (\<lambda>e. projr (check_proxy_health N e region)) endpoints)"
proof -
  have "map (\<lambda>e. check_proxy_health N e region) endpoints
          = map Inr (map (\<lambda>e. projr (check_proxy_health N e region)) endpoints)"
    by (simp add: check_proxy_health_value)
  then show ?thesis by (simp only: gather_Inr)
qed

lemma sum_list_nonneg_rat: "(\<forall>x\<in>set xs. (0::rat) \<le> x) \<Longrightarrow> 0 \<le> sum_list xs"
  by (induction xs) simp_all

lemma length_filter_split:
  "length (filter P xs) + length (filter (\<lambda>x. \<not> P x) xs) = length xs"
  by (induction xs) simp_all

lemma asia_endpoints: "map_of REGION_ENDPOINTS ''asia'' = Some [asia1, asia2]"
  by (simp add: REGION_ENDPOINTS_def asia1_def asia2_def)

lemma sample_float_ops:
  "float_sub sample_net = (\<lambda>x y. x - y)"
  "float_sum sample_net = sum_list"
  "float_div sample_net = (\<lambda>x y. x / y)"
  by (simp_all add: sample_net_def)

lemma back_float_ops:
  "float_sub back_net = (\<lambda>x y. x - y)"
  "float_sum back_net = sum_list"
  "float_div back_net = (\<lambda>x y. x / y)"
  by (simp_all add: back_net_def)

lemma sample_probe_asia1:
  "check_proxy_health sample_net asia1 ''asia'' =
     Inr \<lparr>hr_region = ''asia'', hr_is_healthy = True, hr_response_time = 1 / 4,
          hr_last_checked = sample_datetime\<rparr>"
  by (simp add: check_proxy_health_value sample_net_def sample_ok_def)

lemma sample_probe_asia2:
  "check_proxy_health sample_net asia2 ''asia'' =
     Inr \<lparr>hr_region = ''asia'', hr_is_healthy = False, hr_response_time = 5,
          hr_last_checked = sample_datetime\<rparr>"
  by (simp add: check_proxy_health_value sample_net_def asia1_def asia2_def)

lemma dead_probe:
  "check_proxy_health dead_net e ''asia'' =
     Inr \<lparr>hr_region = ''asia'', hr_is_healthy = False, hr_response_time = 5,
          hr_last_checked = sample_datetime\<rparr>"
  by (simp add: check_proxy_health_value dead_net_def)

lemma back_probe:
  "check_proxy_health back_net e ''asia'' =
     Inr \<lparr>hr_region = ''asia'', hr_is_healthy = True, hr_response_time = - 1,
          hr_last_checked = sample_datetime\<rparr>"
  by (simp add: check_proxy_health_value back_net_def sample_ok_def)

lemma both_probe:
  "check_proxy_health both_net e ''asia'' =
     Inr \<lparr>hr_region = ''asia'', hr_is_healthy = True, hr_response_time = 1 / 4,
          hr_last_checked = sample_datetime\<rparr>"
  by (simp add: check_proxy_health_value both_net_def sample_ok_def)

subsection \<open>The probe\<close>

text \<open>
  Claim C5 says that the recorded response time is always non-negative. It is not: the
  probe subtracts two readings of the wall clock \<^verbatim>\<open>time.time()\<close>, and when the clock
  is set back between them (here from 100 to 99) the probe records \<open>-1\<close>.
\<close>

theorem negative_response_time_counterexample:
  "check_proxy_health back_net asia1 ''asia'' =
     Inr \<lparr>hr_region = ''asia'', hr_is_healthy = True, hr_response_time = - 1,
          hr_last_checked = sample_datetime\<rparr>"
  by (simp add: check_proxy_health_value back_net_def sample_ok_def)

text \<open>
  Claim C5, amended: the health probe returns a verdict for every outcome of the network
  and never raises. The verdict is healthy exactly when the request was answered with a
  2xx status, so a timeout, a refused connection, a malformed response and a status
  outside 2xx all give an unhealthy verdict. The recorded response time is the second
  reading of \<^verbatim>\<open>time.time()\<close> minus the first, in float arithmetic; it is not negative
  whenever the clock was not set back between the two readings (float subtraction of a
  number from one that is not smaller being non-negative).
\<close>

theorem check_proxy_health_total:
  "\<exists>v. check_proxy_health N endpoint region = Inr v
       \<and> hr_region v = region
       \<and> hr_response_time v = float_sub N (clock_end N endpoint) (clock_start N endpoint)
       \<and> (hr_is_healthy v \<longleftrightarrow>
            (\<exists>response. http_get N (endpoint @ ''/health'') = Inr response
               \<and> 200 \<le> status_code response \<and> status_code response < 300))
       \<and> ((\<forall>x y. y \<le> x \<longrightarrow> 0 \<le> float_sub N x y)
            \<and> clock_start N endpoint \<le> clock_end N endpoint
            \<longrightarrow> 0 \<le> hr_response_time v)"
  by (auto simp add: check_proxy_health_value split: sum.splits)

theorem check_proxy_health_total_witness:
  "float_sub sample_net = (\<lambda>x y. x - y)
   \<and> clock_start sample_net asia2 \<le> clock_end sample_net asia2
   \<and> http_get sample_net (asia2 @ ''/health'') = Inl (HttpxError TimeoutException ''timed out'')
   \<and> check_proxy_health sample_net asia2 ''asia'' =
       Inr \<lparr>hr_region = ''asia'', hr_is_healthy = False, hr_response_time = 5,
            hr_last_checked = sample_datetime\<rparr>
   \<and> (0::rat) \<le> 5"
proof -
  have f: "\<forall>x y. y \<le> x \<longrightarrow> 0 \<le> float_sub sample_net x y"
    by (simp add: sample_float_ops)
  have h: "clock_start sample_net asia2 \<le> clock_end sample_net asia2"
    by (simp add: sample_net_def)
  have g: "http_get sample_net (asia2 @ ''/health'')
             = Inl (HttpxError TimeoutException ''timed out'')"
    by (simp add: sample_net_def asia1_def asia2_def)
  show ?thesis
    using f h g check_proxy_health_total [of sample_net asia2 "''asia''"]
    by (simp add: sample_probe_asia2 sample_float_ops)
qed

subsection \<open>The region status\<close>

text \<open>
  Claim C6 says that the average response time is always non-negative. It is not: with
  the clock set back during the probes as above, every response time is \<open>-1\<close> and so is
  the average that \<^verbatim>\<open>get_proxy_status\<close> returns for region \<^verbatim>\<open>asia\<close>.
\<close>

theorem negative_average_counterexample:
  "get_proxy_status back_net ''asia'' sample_user =
     Inr \<lparr>statuses =
       [\<lparr>ps_region = ''asia'', ps_is_healthy = True, ps_avg_response_time = - 1,
         ps_healthy_endpoints = 2, ps_total_endpoints = 2,
         ps_last_checked = sample_datetime\<rparr>]\<rparr>"
  by (simp add: get_proxy_status_def asia_endpoints back_probe back_float_ops Let_def)

text \<open>
  Claim C6, amended: for a region of the registry, the status that \<^verbatim>\<open>get_proxy_status\<close>
  returns counts as healthy the verdicts that are healthy, so that healthy and unhealthy
  verdicts add up to the number of endpoints; the region is healthy exactly when the
  healthy count is positive; and its average response time is Python's float sum of the
  verdicts' response times divided, in floats, by their number (which is not zero). That
  is their arithmetic mean up to the rounding of the two float operations: it is the
  exact mean where they are exact. The average is not negative whenever no response time
  is negative (the float sum of non-negative numbers and the float quotient of a
  non-negative by a positive number being non-negative).
\<close>

theorem region_status_aggregate:
  assumes "map_of REGION_ENDPOINTS region = Some endpoints"
  shows "\<exists>verdicts st.
           map (\<lambda>e. check_proxy_health N e region) endpoints = map Inr verdicts
         \<and> verdicts \<noteq> []
         \<and> get_proxy_status N region user = Inr \<lparr>statuses = [st]\<rparr>
         \<and> ps_healthy_endpoints st = length (filter hr_is_healthy verdicts)
         \<and> ps_healthy_endpoints st + length (filter (\<lambda>v. \<not> hr_is_healthy v) verdicts)
             = ps_total_endpoints st
         \<and> ps_total_endpoints st = length endpoints
         \<and> ps_is_healthy st = (0 < ps_healthy_endpoints st)
         \<and> ps_avg_response_time st
             = float_div N (float_sum N (map hr_response_time verdicts))
                 (of_nat (length verdicts))
         \<and> (float_sum N = sum_list \<and> float_div N = (\<lambda>x y. x / y)
              \<longrightarrow> ps_avg_response_time st
                    = sum_list (map hr_response_time verdicts) / of_nat (length verdicts))
         \<and> ((\<forall>xs. (\<forall>x\<in>set xs. 0 \<le> x) \<longrightarrow> 0 \<le> float_sum N xs)
              \<and> (\<forall>x y. 0 \<le> x \<and> 0 < y \<longrightarrow> 0 \<le> float_div N x y)
              \<and> (\<forall>v\<in>set verdicts. 0 \<le> hr_response_time v)
              \<longrightarrow> 0 \<le> ps_avg_response_time st)"
proof -
  define verdicts where
    "verdicts = map (\<lambda>e. projr (check_proxy_health N e region)) endpoints"
  define st where
    "st = \<lparr>ps_region = region,
           ps_is_healthy = (0 < length (filter hr_is_healthy verdicts)),
           ps_avg_response_time =
             float_div N (float_sum N (map hr_response_time verdicts))
               (of_nat (length endpoints)),
           ps_healthy_endpoints = length (filter hr_is_healthy verdicts),
           ps_total_endpoints = length endpoints,
           ps_last_checked =
             (case verdicts of r # _ \<Rightarrow> hr_last_checked r | [] \<Rightarrow> route_utcnow N)\<rparr>"
  have ne: "endpoints \<noteq> []"
    using assms(1) by (rule registry_nonempty)
  have len: "length verdicts = length endpoints"
    by (simp add: verdicts_def)
  have m: "map (\<lambda>e. check_proxy_health N e region) endpoints = map Inr verdicts"
    by (simp add: verdicts_def check_proxy_health_value)
  have g: "get_proxy_status N region user = Inr \<lparr>statuses = [st]\<rparr>"
    using ne by (simp add: get_proxy_status_def assms(1) probes_gathered Let_def st_def
        verdicts_def [symmetric])
  have split: "ps_healthy_endpoints st + length (filter (\<lambda>v. \<not> hr_is_healthy v) verdicts)
             = ps_total_endpoints st"
    using length_filter_split [of hr_is_healthy verdicts] by (simp add: st_def len)
  have vne: "verdicts \<noteq> []"
    using ne by (simp add: verdicts_def)
  have rest: "ps_healthy_endpoints st = length (filter hr_is_healthy verdicts)"
    "ps_total_endpoints st = length endpoints"
    "ps_is_healthy st = (0 < ps_healthy_endpoints st)"
    "ps_avg_response_time st
       = float_div N (float_sum N (map hr_response_time verdicts)) (of_nat (length verdicts))"
    by (simp_all add: st_def len)
  have exact: "float_sum N = sum_list \<and> float_div N = (\<lambda>x y. x / y)
      \<longrightarrow> ps_avg_response_time st
            = sum_list (map hr_response_time verdicts) / of_nat (length verdicts)"
    by (simp add: rest(4))
  have nonneg: "(\<forall>xs. (\<forall>x\<in>set xs. 0 \<le> x) \<longrightarrow> 0 \<le> float_sum N xs)
              \<and> (\<forall>x y. 0 \<le> x \<and> 0 < y \<longrightarrow> 0 \<le> float_div N x y)
              \<and> (\<forall>v\<in>set verdicts. 0 \<le> hr_response_time v)
              \<longrightarrow> 0 \<le> ps_avg_response_time st"
  proof (intro impI, elim conjE)
    assume s: "\<forall>xs. (\<forall>x\<in>set xs. 0 \<le> x) \<longrightarrow> 0 \<le> float_sum N xs"
      and d: "\<forall>x y. 0 \<le> x \<and> 0 < y \<longrightarrow> 0 \<le> float_div N x y"
      and v: "\<forall>v\<in>set verdicts. 0 \<le> hr_response_time v"
    from v have "\<forall>x\<in>set (map hr_response_time verdicts). 0 \<le> x"
      by simp
    with s have "0 \<le> float_sum N (map hr_response_time verdicts)"
      by blast
    moreover have "(0::rat) < of_nat (length verdicts)"
      using vne by simp
    ultimately show "0 \<le> ps_avg_response_time st"
      using d by (simp add: rest(4))
  qed
  show ?thesis
    by (intro exI [of _ verdicts] exI [of _ st] conjI m vne g rest split exact nonneg)
qed

theorem region_status_aggregate_witness:
  "map_of REGION_ENDPOINTS ''asia'' = Some [asia1, asia2]
   \<and> float_sum sample_net = sum_list
   \<and> float_div sample_net = (\<lambda>x y. x / y)
   \<and> get_proxy_status sample_net ''asia'' sample_user =
       Inr \<lparr>statuses =
         [\<lparr>ps_region = ''asia'', ps_is_healthy = True, ps_avg_response_time = 21 / 8,
           ps_healthy_endpoints = 1, ps_total_endpoints = 2,
           ps_last_checked = sample_datetime\<rparr>]\<rparr>
   \<and> (1 / 4 + 5) / 2 = (21 / 8 :: rat)
   \<and> (0::rat) \<le> 21 / 8"
proof -
  have v: "get_proxy_status sample_net ''asia'' sample_user =
       Inr \<lparr>statuses =
         [\<lparr>ps_region = ''asia'', ps_is_healthy = True, ps_avg_response_time = 21 / 8,
           ps_healthy_endpoints = 1, ps_total_endpoints = 2,
           ps_last_checked = sample_datetime\<rparr>]\<rparr>"
    by (simp add: get_proxy_status_def asia_endpoints sample_probe_asia1 sample_probe_asia2
        sample_float_ops Let_def)
  show ?thesis
    using v region_status_aggregate [OF asia_endpoints, of sample_net sample_user]
    by (simp add: asia_endpoints sample_float_ops)
qed

section \<open>Selecting an endpoint and forwarding\<close>

text \<open>
  The comprehension over \<^verbatim>\<open>enumerate(results)\<close> keeps the endpoints whose verdict
  is healthy, in order.
\<close>

lemma enumerate_filter_index_aux:
  "map (\<lambda>(i, r). (pre @ es) ! i)
       (filter (\<lambda>(i, r). P r) (List.enumerate (length pre) (map f es)))
     = filter (\<lambda>e. P (f e)) es"
proof (induction es arbitrary: pre)
  case Nil
  show ?case by simp
next
  case (Cons x xs)
  have "map (\<lambda>(i, r). ((pre @ [x]) @ xs) ! i)
          (filter (\<lambda>(i, r). P r) (List.enumerate (length (pre @ [x])) (map f xs)))
        = filter (\<lambda>e. P (f e)) xs"
    by (rule Cons.IH)
  then show ?case by simp
qed

lemma enumerate_filter_index:
  "map (\<lambda>(i, r). es ! i) (filter (\<lambda>(i, r). P r) (List.enumerate 0 (map f es)))
     = filter (\<lambda>e. P (f e)) es"
  using enumerate_filter_index_aux [of "[]" es P f] by simp

lemma random_choice_nonempty:
  "xs \<noteq> [] \<Longrightarrow> random_choice rnd xs = Inr (xs ! (rnd mod length xs))"
  by (simp add: random_choice_def)

lemma nth_mod_mem: "xs \<noteq> [] \<Longrightarrow> xs ! (rnd mod length xs) \<in> set xs"
  by simp

text \<open>The route in terms of the healthy endpoints.\<close>

lemma proxy_fetch_unfold:
  fixes N :: net and region :: string and endpoints :: "string list"
  assumes "map_of REGION_ENDPOINTS region = Some endpoints"
  defines "healthy \<equiv> filter (\<lambda>e. hr_is_healthy (projr (check_proxy_health N e region))) endpoints"
  shows "proxy_fetch N rnd region request user =
     (if healthy = [] then
        ([], Inl (HTTPException 503 (''No healthy proxy endpoints available in '' @ region)))
      else
        ([(healthy ! (rnd mod length healthy) @ ''/fetch'', [(''url'', JStr (url request))])],
         case forward N (healthy ! (rnd mod length healthy)) region request of
           Inr reply \<Rightarrow> Inr reply
         | Inl e \<Rightarrow> Inl (HTTPException 500
                      (''Proxy request failed in '' @ region @ '': '' @ py_str e))))"
  by (simp add: proxy_fetch_def assms(1) probes_gathered enumerate_filter_index Let_def
      healthy_def random_choice_nonempty split: sum.split)

lemma healthy_filter_eq:
  "filter (\<lambda>e. hr_is_healthy (projr (check_proxy_health N e region))) endpoints
     = filter (\<lambda>e. \<exists>v. check_proxy_health N e region = Inr v \<and> hr_is_healthy v) endpoints"
  by (simp add: check_proxy_health_value)

lemma forward_Inr:
  assumes "forward N e region request = Inr reply"
  shows "\<exists>response data r ip dev.
           http_post N (e @ ''/fetch'') [(''url'', JStr (url request))] = Inr response
         \<and> json response = Inr data
         \<and> map_of data ''result'' = Some (JStr r)
         \<and> map_of data ''public_ip'' = Some (JStr ip)
         \<and> map_of data ''device_id'' = Some (JStr dev)
         \<and> reply = \<lparr>pr_result = r, pr_public_ip = ip, pr_device_id = dev,
                     pr_region_used = region\<rparr>"
  using assms
  by (auto simp add: forward_def str_field_def ProxyResponse_init_def
      split: sum.splits option.splits jval.splits)

lemma sample_fetch:
  "proxy_fetch sample_net 7 ''asia'' sample_request sample_user =
     ([(asia1 @ ''/fetch'', [(''url'', JStr ''https://example.org/'')])],
      Inr \<lparr>pr_result = ''<html></html>'', pr_public_ip = ''203.0.113.7'',
           pr_device_id = ''device-1'', pr_region_used = ''asia''\<rparr>)"
proof -
  have h: "filter (\<lambda>e. hr_is_healthy (projr (check_proxy_health sample_net e ''asia'')))
             [asia1, asia2] = [asia1]"
    by (simp add: sample_probe_asia1 sample_probe_asia2)
  have f: "forward sample_net asia1 ''asia'' sample_request =
      Inr \<lparr>pr_result = ''<html></html>'', pr_public_ip = ''203.0.113.7'',
           pr_device_id = ''device-1'', pr_region_used = ''asia''\<rparr>"
    by (simp add: forward_def sample_net_def sample_ok_def raise_for_status_def
        sample_body_def str_field_def ProxyResponse_init_def)
  have r: "url sample_request = ''https://example.org/''"
    by (simp add: sample_request_def)
  note u = proxy_fetch_unfold [OF asia_endpoints, of sample_net 7 sample_request sample_user,
      unfolded h]
  show ?thesis
    by (simp add: u f r)
qed

lemma dead_fetch:
  "proxy_fetch dead_net 7 ''asia'' sample_request sample_user =
     ([], Inl (HTTPException 503 ''No healthy proxy endpoints available in asia''))"
proof -
  have h: "filter (\<lambda>e. hr_is_healthy (projr (check_proxy_health dead_net e ''asia'')))
             [asia1, asia2] = []"
    by (simp add: dead_probe)
  note u = proxy_fetch_unfold [OF asia_endpoints, of dead_net 7 sample_request sample_user,
      unfolded h]
  show ?thesis
    by (simp add: u)
qed

text \<open>
  Claim C4: for a region of the registry, the endpoint that \<^verbatim>\<open>proxy_fetch\<close> selects
  is one of the region's endpoints whose probe in this request gave a healthy verdict:
  the one POST the call issues goes to such an endpoint. When no endpoint of the region
  has a healthy verdict, the call fails with status 503 and issues no POST.
\<close>

theorem proxy_fetch_selects_healthy:
  assumes "map_of REGION_ENDPOINTS region = Some endpoints"
  shows "((\<forall>e\<in>set endpoints. \<forall>v. check_proxy_health N e region = Inr v \<longrightarrow> \<not> hr_is_healthy v)
            \<longrightarrow> proxy_fetch N rnd region request user =
                  ([], Inl (HTTPException 503
                     (''No healthy proxy endpoints available in '' @ region))))
       \<and> ((\<exists>e\<in>set endpoints. \<exists>v. check_proxy_health N e region = Inr v \<and> hr_is_healthy v)
            \<longrightarrow> (\<exists>e\<in>set endpoints. \<exists>v. check_proxy_health N e region = Inr v
                    \<and> hr_is_healthy v
                    \<and> fst (proxy_fetch N rnd region request user) =
                        [(e @ ''/fetch'', [(''url'', JStr (url request))])]))"
proof -
  define healthy where
    "healthy = filter (\<lambda>e. \<exists>v. check_proxy_health N e region = Inr v \<and> hr_is_healthy v) endpoints"
  note u = proxy_fetch_unfold [OF assms, of N rnd request user,
      unfolded healthy_filter_eq, folded healthy_def]
  have none: "proxy_fetch N rnd region request user =
                  ([], Inl (HTTPException 503
                     (''No healthy proxy endpoints available in '' @ region)))"
    if "\<forall>e\<in>set endpoints. \<forall>v. check_proxy_health N e region = Inr v \<longrightarrow> \<not> hr_is_healthy v"
  proof -
    have "healthy = []"
      using that by (auto simp add: healthy_def filter_empty_conv)
    then show ?thesis by (simp add: u)
  qed
  have some: "\<exists>e\<in>set endpoints. \<exists>v. check_proxy_health N e region = Inr v
                    \<and> hr_is_healthy v
                    \<and> fst (proxy_fetch N rnd region request user) =
                        [(e @ ''/fetch'', [(''url'', JStr (url request))])]"
    if "\<exists>e\<in>set endpoints. \<exists>v. check_proxy_health N e region = Inr v \<and> hr_is_healthy v"
  proof -
    have ne: "healthy \<noteq> []"
      using that by (auto simp add: healthy_def filter_empty_conv)
    then have "healthy ! (rnd mod length healthy) \<in> set healthy"
      by (rule nth_mod_mem)
    then have sel: "healthy ! (rnd mod length healthy) \<in> set endpoints"
      "\<exists>v. check_proxy_health N (healthy ! (rnd mod length healthy)) region = Inr v
         \<and> hr_is_healthy v"
      by (simp_all add: healthy_def)
    have "fst (proxy_fetch N rnd region request user) =
            [(healthy ! (rnd mod length healthy) @ ''/fetch'', [(''url'', JStr (url request))])]"
      using ne by (simp add: u)
    with sel show ?thesis by blast
  qed
  from none some show ?thesis by blast
qed

theorem proxy_fetch_selects_healthy_witness:
  "map_of REGION_ENDPOINTS ''asia'' = Some [asia1, asia2]
   \<and> proxy_fetch dead_net 7 ''asia'' sample_request sample_user =
       ([], Inl (HTTPException 503 ''No healthy proxy endpoints available in asia''))
   \<and> check_proxy_health sample_net asia1 ''asia'' =
       Inr \<lparr>hr_region = ''asia'', hr_is_healthy = True, hr_response_time = 1 / 4,
            hr_last_checked = sample_datetime\<rparr>
   \<and> fst (proxy_fetch sample_net 7 ''asia'' sample_request sample_user) =
       [(asia1 @ ''/fetch'', [(''url'', JStr (url sample_request))])]"
proof -
  note t = proxy_fetch_selects_healthy [OF asia_endpoints]
  have d: "proxy_fetch dead_net 7 ''asia'' sample_request sample_user =
       ([], Inl (HTTPException 503 ''No healthy proxy endpoints available in asia''))"
    using t [of dead_net 7 sample_request sample_user] by (simp add: dead_probe)
  have s: "fst (proxy_fetch sample_net 7 ''asia'' sample_request sample_user) =
       [(asia1 @ ''/fetch'', [(''url'', JStr (url sample_request))])]"
    using t [of sample_net 7 sample_request sample_user]
    by (simp add: sample_probe_asia1 sample_probe_asia2)
  show ?thesis
    using d s by (simp add: asia_endpoints sample_probe_asia1)
qed

text \<open>
  Claim C10 says that the reply never reveals which endpoint served the request. It can:
  \<^verbatim>\<open>result\<close>, \<^verbatim>\<open>public_ip\<close> and \<^verbatim>\<open>device_id\<close> are copied from the answer of the
  selected endpoint. With both endpoints of region \<^verbatim>\<open>asia\<close> healthy and each answering
  from its own public address, the same request gets the first endpoint's address and
  device for the draw 0 and the second endpoint's for the draw 1.
\<close>

theorem reply_reveals_endpoint_counterexample:
  "proxy_fetch both_net 0 ''asia'' sample_request sample_user =
     ([(asia1 @ ''/fetch'', [(''url'', JStr ''https://example.org/'')])],
      Inr \<lparr>pr_result = ''<html></html>'', pr_public_ip = ''203.0.113.7'',
           pr_device_id = ''device-1'', pr_region_used = ''asia''\<rparr>)
   \<and> proxy_fetch both_net 1 ''asia'' sample_request sample_user =
     ([(asia2 @ ''/fetch'', [(''url'', JStr ''https://example.org/'')])],
      Inr \<lparr>pr_result = ''<html></html>'', pr_public_ip = ''198.51.100.9'',
           pr_device_id = ''device-2'', pr_region_used = ''asia''\<rparr>)"
proof -
  have h: "filter (\<lambda>e. hr_is_healthy (projr (check_proxy_health both_net e ''asia'')))
             [asia1, asia2] = [asia1, asia2]"
    by (simp add: both_probe)
  have f1: "forward both_net asia1 ''asia'' sample_request =
      Inr \<lparr>pr_result = ''<html></html>'', pr_public_ip = ''203.0.113.7'',
           pr_device_id = ''device-1'', pr_region_used = ''asia''\<rparr>"
    by (simp add: forward_def both_net_def sample_ok_def raise_for_status_def
        sample_body_def str_field_def ProxyResponse_init_def)
  have f2: "forward both_net asia2 ''asia'' sample_request =
      Inr \<lparr>pr_result = ''<html></html>'', pr_public_ip = ''198.51.100.9'',
           pr_device_id = ''device-2'', pr_region_used = ''asia''\<rparr>"
    by (simp add: forward_def both_net_def raise_for_status_def second_body_def
        str_field_def ProxyResponse_init_def asia1_def asia2_def)
  have r: "url sample_request = ''https://example.org/''"
    by (simp add: sample_request_def)
  note u0 = proxy_fetch_unfold [OF asia_endpoints, of both_net 0 sample_request sample_user,
      unfolded h]
  note u1 = proxy_fetch_unfold [OF asia_endpoints, of both_net 1 sample_request sample_user,
      unfolded h]
  have a: "proxy_fetch both_net 0 ''asia'' sample_request sample_user =
     ([(asia1 @ ''/fetch'', [(''url'', JStr ''https://example.org/'')])],
      Inr \<lparr>pr_result = ''<html></html>'', pr_public_ip = ''203.0.113.7'',
           pr_device_id = ''device-1'', pr_region_used = ''asia''\<rparr>)"
    using u0 by (simp add: f1 r)
  have b: "proxy_fetch both_net 1 ''asia'' sample_request sample_user =
     ([(asia2 @ ''/fetch'', [(''url'', JStr ''https://example.org/'')])],
      Inr \<lparr>pr_result = ''<html></html>'', pr_public_ip = ''198.51.100.9'',
           pr_device_id = ''device-2'', pr_region_used = ''asia''\<rparr>)"
    using u1 by (simp add: f2 r)
  from a b show ?thesis
    by (rule conjI)
qed

text \<open>
  Claim C10, amended: in every successful reply of \<^verbatim>\<open>proxy_fetch\<close> the field
  \<^verbatim>\<open>region_used\<close> is the region the client asked for, and the reply has no field for
  the address of the endpoint that served the request: it is made of that region and of
  the three strings \<^verbatim>\<open>result\<close>, \<^verbatim>\<open>public_ip\<close> and \<^verbatim>\<open>device_id\<close> of that endpoint's
  answer, copied as they are, and of nothing else. It reveals the endpoint as far as
  these three strings do.
\<close>

theorem proxy_fetch_reply:
  assumes "proxy_fetch N rnd region request user = (posts, Inr reply)"
  shows "pr_region_used reply = region
       \<and> (\<exists>e response data r ip dev.
             posts = [(e @ ''/fetch'', [(''url'', JStr (url request))])]
           \<and> http_post N (e @ ''/fetch'') [(''url'', JStr (url request))] = Inr response
           \<and> json response = Inr data
           \<and> map_of data ''result'' = Some (JStr r)
           \<and> map_of data ''public_ip'' = Some (JStr ip)
           \<and> map_of data ''device_id'' = Some (JStr dev)
           \<and> reply = \<lparr>pr_result = r, pr_public_ip = ip, pr_device_id = dev,
                       pr_region_used = region\<rparr>)"
proof -
  obtain endpoints where reg: "map_of REGION_ENDPOINTS region = Some endpoints"
    using assms by (cases "map_of REGION_ENDPOINTS region") (auto simp add: proxy_fetch_def)
  define healthy where
    "healthy = filter (\<lambda>e. hr_is_healthy (projr (check_proxy_health N e region))) endpoints"
  note u = proxy_fetch_unfold [OF reg, of N rnd request user, folded healthy_def]
  have ne: "healthy \<noteq> []"
    using assms by (auto simp add: u split: if_splits)
  have posts: "posts = [(healthy ! (rnd mod length healthy) @ ''/fetch'',
                         [(''url'', JStr (url request))])]"
    using assms ne by (simp add: u)
  have fw: "forward N (healthy ! (rnd mod length healthy)) region request = Inr reply"
    using assms ne by (auto simp add: u split: sum.splits)
  from forward_Inr [OF fw] posts show ?thesis
    by force
qed

theorem proxy_fetch_reply_witness:
  "proxy_fetch sample_net 7 ''asia'' sample_request sample_user =
     ([(asia1 @ ''/fetch'', [(''url'', JStr ''https://example.org/'')])],
      Inr \<lparr>pr_result = ''<html></html>'', pr_public_ip = ''203.0.113.7'',
           pr_device_id = ''device-1'', pr_region_used = ''asia''\<rparr>)
   \<and> pr_region_used \<lparr>pr_result = ''<html></html>'', pr_public_ip = ''203.0.113.7'',
           pr_device_id = ''device-1'', pr_region_used = ''asia''\<rparr> = ''asia''"
  using sample_fetch proxy_fetch_reply [OF sample_fetch] by simp

section \<open>Listing the API keys\<close>

subsection \<open>Slices, decimal digits and the ISO shape\<close>

lemma key_preview_long:
  "length a = 8 \<Longrightarrow> length b = 8 \<Longrightarrow> key_preview (a @ m @ b) = a @ ''...'' @ b"
  by (simp add: key_preview_def slice_to_def slice_last_def FRONT_PREVIEW_LENGTH_def
      END_PREVIEW_LENGTH_def)

lemma key_preview_eq:
  "key_preview t = take 8 t @ ''...'' @ drop (length t - 8) t"
  by (simp add: key_preview_def slice_to_def slice_last_def FRONT_PREVIEW_LENGTH_def
      END_PREVIEW_LENGTH_def)

lemma key_preview_short_exposes:
  assumes "length t < 16"
  shows "set t \<subseteq> set (key_preview t)"
proof
  fix c assume "c \<in> set t"
  moreover have "set t = set (take 8 t) \<union> set (drop 8 t)"
    by (metis append_take_drop_id set_append)
  ultimately have "c \<in> set (take 8 t) \<or> c \<in> set (drop 8 t)" by simp
  moreover have "set (drop 8 t) \<subseteq> set (drop (length t - 8) t)"
    using assms by (intro set_drop_subset_set_drop) simp
  ultimately show "c \<in> set (key_preview t)"
    by (auto simp add: key_preview_eq)
qed

lemma digit_char_is_digit: "d < 10 \<Longrightarrow> is_digit (digit_char d)"
proof -
  assume "d < 10"
  then have "d \<in> {0, 1, 2, 3, 4, 5, 6, 7, 8, 9}" by auto
  then show ?thesis
    by (auto simp add: is_digit_def digit_char_def)
qed

lemma str_nat_digits: "list_all is_digit (str_nat n)"
proof (induction n rule: str_nat.induct)
  case (1 n)
  show ?case
  proof (cases "n < 10")
    case True
    then show ?thesis by (simp add: str_nat.simps [of n] digit_char_is_digit)
  next
    case False
    then show ?thesis
      using "1.IH" by (simp add: str_nat.simps [of n] digit_char_is_digit)
  qed
qed

lemma str_nat_length: "n < 10 ^ w \<Longrightarrow> 0 < w \<Longrightarrow> length (str_nat n) \<le> w"
proof (induction n arbitrary: w rule: str_nat.induct)
  case (1 n)
  show ?case
  proof (cases "n < 10")
    case True
    then show ?thesis using "1.prems" by (simp add: str_nat.simps [of n])
  next
    case False
    obtain w' where w: "w = Suc w'"
      using "1.prems"(2) by (cases w) auto
    have "w' \<noteq> 0"
      using False "1.prems"(1) w by (cases w') auto
    moreover have "n div 10 < 10 ^ w'"
      using "1.prems"(1) w by (simp add: less_mult_imp_div_less mult.commute)
    ultimately have "length (str_nat (n div 10)) \<le> w'"
      using "1.IH" [OF False, of w'] by simp
    then show ?thesis
      using False w by (simp add: str_nat.simps [of n])
  qed
qed

lemma zpad_length: "n < 10 ^ w \<Longrightarrow> 0 < w \<Longrightarrow> length (zpad w n) = w"
  using str_nat_length [of n w] by (simp add: zpad_def)

lemma zpad_digits: "list_all is_digit (zpad w n)"
proof -
  have "is_digit CHR ''0''" by (simp add: is_digit_def)
  then have "list_all is_digit (replicate (w - length (str_nat n)) CHR ''0'')"
    by (simp add: list_all_iff)
  then show ?thesis by (simp add: zpad_def str_nat_digits)
qed

lemma matches_append:
  "matches p1 s1 \<Longrightarrow> matches p2 s2 \<Longrightarrow> matches (p1 @ p2) (s1 @ s2)"
  by (induction p1 s1 rule: matches.induct) auto

lemma matches_digits:
  "list_all is_digit s \<Longrightarrow> matches (replicate (length s) Digit) s"
  by (induction s) auto

lemma matches_zpad:
  "n < 10 ^ w \<Longrightarrow> 0 < w \<Longrightarrow> matches (replicate w Digit) (zpad w n)"
  using matches_digits [OF zpad_digits, of w n] by (simp add: zpad_length)

lemma matches_length: "matches p s \<Longrightarrow> length s = length p"
  by (induction p s rule: matches.induct) auto

lemma iso8601_pattern_eq:
  "iso8601_pattern =
     replicate 4 Digit @ [Lit CHR ''-''] @ replicate 2 Digit @ [Lit CHR ''-'']
     @ replicate 2 Digit @ [Lit CHR ''T''] @ replicate 2 Digit @ [Lit CHR '':'']
     @ replicate 2 Digit @ [Lit CHR '':''] @ replicate 2 Digit"
  by (simp add: iso8601_pattern_def numeral_eq_Suc)

lemma matches_lit: "matches [Lit c] [c]"
  by simp

lemma isoformat_is_iso8601:
  assumes "valid_datetime d"
  shows "is_iso8601 (isoformat d)"
proof -
  define base where
    "base = zpad 4 (year d) @ ''-'' @ zpad 2 (month d) @ ''-'' @ zpad 2 (day d) @ ''T''
       @ zpad 2 (hour d) @ '':'' @ zpad 2 (minute d) @ '':'' @ zpad 2 (second d)"
  define tail where
    "tail = (if microsecond d = 0 then [] else ''.'' @ zpad 6 (microsecond d))"
  have iso: "isoformat d = base @ tail"
    by (simp add: isoformat_def base_def tail_def)
  have r: "year d < 10 ^ 4" "month d < 10 ^ 2" "day d < 10 ^ 2" "hour d < 10 ^ 2"
    "minute d < 10 ^ 2" "second d < 10 ^ 2" "microsecond d < 10 ^ 6"
    using assms by (simp_all add: valid_datetime_def)
  have m: "matches iso8601_pattern base"
    unfolding iso8601_pattern_eq base_def
    by (intro matches_append matches_zpad r matches_lit) simp_all
  then have "length base = 19"
    using matches_length [OF m] by (simp add: iso8601_pattern_def)
  then have td: "take 19 (isoformat d) = base" "drop 19 (isoformat d) = tail"
    by (simp_all add: iso)
  have "length (zpad 6 (microsecond d)) = 6"
    using r(7) by (simp add: zpad_length)
  then have ne: "zpad 6 (microsecond d) \<noteq> []"
    by auto
  have t: "(case tail of [] \<Rightarrow> True
            | c # ds \<Rightarrow> c = CHR ''.'' \<and> ds \<noteq> [] \<and> list_all is_digit ds)"
    using ne by (simp add: tail_def zpad_digits)
  show ?thesis
    unfolding is_iso8601_def td using m t by simp
qed

lemma str_nat_eval:
  "str_nat 2025 = ''2025''" "str_nat 2026 = ''2026''" "str_nat 3 = ''3''" "str_nat 19 = ''19''"
  "str_nat 16 = ''16''" "str_nat 11 = ''11''" "str_nat 30 = ''30''"
  "str_nat 715497 = ''715497''"
  by (simp_all add: str_nat.simps digit_char_def)

lemma sample_isoformat:
  "isoformat sample_datetime = ''2025-03-19T16:11:30.715497''"
  "isoformat sample_expiry = ''2026-03-19T16:11:30''"
  by (simp_all add: isoformat_def sample_datetime_def sample_expiry_def zpad_def str_nat_eval)

lemma sample_valid: "valid_datetime sample_datetime" "valid_datetime sample_expiry"
  by (simp_all add: valid_datetime_def sample_datetime_def sample_expiry_def)

lemma sample_preview: "key_preview sample_token = ''eyJhbGci...daXEdc_U''"
  by (simp add: key_preview_eq sample_token_def sample_header_segment_def
      sample_claims_segment_def sample_signature_segment_def)

subsection \<open>The preview\<close>

text \<open>
  Claim C7 says that the preview fails for a token shorter than 16 characters. It does
  not: the slices clamp, and for the stored token \<^verbatim>\<open>abc\<close> the route returns an entry
  whose preview is \<^verbatim>\<open>abc...abc\<close>.
\<close>

theorem short_token_preview_counterexample:
  "list_user_api_keys (sample_world [sample_row ''abc'' True]) sample_user =
     Inr [\<lparr>akr_key_preview = ''abc...abc'',
           akr_created_at = ''2025-03-19T16:11:30.715497'',
           akr_expires_at = ''2026-03-19T16:11:30'',
           akr_is_active = True\<rparr>]"
  by (simp add: list_user_api_keys_def sample_world_def sample_row_def sample_user_def
      key_preview_eq sample_isoformat Let_def)

text \<open>
  Claim C7, amended: for every token of at least 16 characters (eight first characters
  \<open>a\<close>, any middle \<open>m\<close>, eight last characters \<open>b\<close>) the preview is exactly \<open>a\<close>, three
  dots and \<open>b\<close>, so it depends on no character of the middle. For a token \<open>t\<close> shorter
  than 16 characters the preview does not fail: it is the first eight characters of \<open>t\<close>
  (all of \<open>t\<close> when it has fewer), three dots and the last eight characters of \<open>t\<close> (all
  of \<open>t\<close> when it has fewer), and every character of \<open>t\<close> occurs in it.
\<close>

theorem key_preview_shape:
  "(length a = 8 \<and> length b = 8 \<longrightarrow> key_preview (a @ m @ b) = a @ ''...'' @ b)
   \<and> (length t < 16 \<longrightarrow>
        key_preview t = take 8 t @ ''...'' @ drop (length t - 8) t
        \<and> set t \<subseteq> set (key_preview t))"
  using key_preview_long [of a b m] key_preview_eq [of t] key_preview_short_exposes [of t]
  by blast

theorem key_preview_shape_witness:
  "length ''eyJhbGci'' = 8 \<and> length ''daXEdc_U'' = 8
   \<and> key_preview (''eyJhbGci'' @ ''OiJIUzI1NiIsInR5cCI6IkpXVCJ9.e30.4AVw0hyo'' @ ''daXEdc_U'')
       = ''eyJhbGci...daXEdc_U''
   \<and> length ''abcdefghij'' < 16
   \<and> key_preview ''abcdefghij'' = ''abcdefgh...cdefghij''"
  using key_preview_shape [of "''eyJhbGci''" "''daXEdc_U''"
      "''OiJIUzI1NiIsInR5cCI6IkpXVCJ9.e30.4AVw0hyo''" "''abcdefghij''"]
  by simp

subsection \<open>The listed entries\<close>

text \<open>
  Claim C8 says that the route returns one entry for each persisted token of the user.
  It does not: the query keeps only the rows whose \<^verbatim>\<open>is_active\<close> column is true, and
  for a subscribed user whose only token is inactive the list is empty.
\<close>

theorem inactive_token_not_listed_counterexample:
  "list_user_api_keys (sample_world [sample_row sample_token False]) sample_user = Inr []"
  by (simp add: list_user_api_keys_def sample_world_def sample_row_def sample_user_def)

text \<open>
  Claim C8, amended: for a subscribed user the route returns one entry for each of that
  user's persisted tokens whose \<^verbatim>\<open>is_active\<close> column is true, in table order, and none
  for the others. Each entry has the preview of its token, \<^verbatim>\<open>is_active\<close> true, and the
  token's \<^verbatim>\<open>created_at\<close> and \<^verbatim>\<open>expires_at\<close> in ISO-8601 form
  (\<^verbatim>\<open>YYYY-MM-DDTHH:MM:SS\<close>, with a fraction when the microseconds are not zero), the
  stored datetimes being within the ranges Python's \<^verbatim>\<open>datetime\<close> allows.
\<close>

theorem list_user_api_keys_active_rows:
  assumes "has_subscription current_user"
    and "\<forall>t\<in>set (api_tokens w). valid_datetime (created_at t) \<and> valid_datetime (expires_at t)"
  shows "\<exists>entries. list_user_api_keys w current_user = Inr entries
           \<and> list_all2
               (\<lambda>t r. akr_key_preview r = key_preview (token t)
                     \<and> akr_created_at r = isoformat (created_at t)
                     \<and> akr_expires_at r = isoformat (expires_at t)
                     \<and> is_iso8601 (akr_created_at r)
                     \<and> is_iso8601 (akr_expires_at r)
                     \<and> akr_is_active r)
               (filter (\<lambda>t. user_id t = User_id current_user \<and> token_is_active t)
                  (api_tokens w))
               entries"
proof -
  define rows where
    "rows = filter (\<lambda>t. user_id t = User_id current_user \<and> token_is_active t) (api_tokens w)"
  define entry where
    "entry = (\<lambda>t::APIToken. \<lparr>akr_key_preview = key_preview (token t),
                    akr_created_at = isoformat (created_at t),
                    akr_expires_at = isoformat (expires_at t),
                    akr_is_active = token_is_active t\<rparr>)"
  have l: "list_user_api_keys w current_user = Inr (map entry rows)"
    using assms(1) by (simp add: list_user_api_keys_def Let_def rows_def entry_def)
  have "\<forall>t\<in>set rows. is_iso8601 (isoformat (created_at t))
          \<and> is_iso8601 (isoformat (expires_at t)) \<and> token_is_active t"
    using assms(2) by (simp add: rows_def isoformat_is_iso8601)
  then have "list_all2
               (\<lambda>t r. akr_key_preview r = key_preview (token t)
                     \<and> akr_created_at r = isoformat (created_at t)
                     \<and> akr_expires_at r = isoformat (expires_at t)
                     \<and> is_iso8601 (akr_created_at r)
                     \<and> is_iso8601 (akr_expires_at r)
                     \<and> akr_is_active r)
               rows (map entry rows)"
    by (simp add: list_all2_map2 list_all2_same entry_def)
  with l show ?thesis
    unfolding rows_def by blast
qed

theorem list_user_api_keys_active_rows_witness:
  "has_subscription sample_user
   \<and> valid_datetime sample_datetime \<and> valid_datetime sample_expiry
   \<and> list_user_api_keys
       (sample_world [sample_row sample_token True, sample_row ''revoked'' False]) sample_user
       = Inr [\<lparr>akr_key_preview = ''eyJhbGci...daXEdc_U'',
               akr_created_at = ''2025-03-19T16:11:30.715497'',
               akr_expires_at = ''2026-03-19T16:11:30'',
               akr_is_active = True\<rparr>]
   \<and> is_iso8601 ''2025-03-19T16:11:30.715497''
   \<and> is_iso8601 ''2026-03-19T16:11:30''"
proof -
  let ?w = "sample_world [sample_row sample_token True, sample_row ''revoked'' False]"
  have s: "has_subscription sample_user"
    by (simp add: sample_user_def)
  have v: "\<forall>t\<in>set (api_tokens ?w). valid_datetime (created_at t) \<and> valid_datetime (expires_at t)"
    by (simp add: sample_world_def sample_row_def sample_valid)
  have f: "filter (\<lambda>t. user_id t = User_id sample_user \<and> token_is_active t) (api_tokens ?w)
             = [sample_row sample_token True]"
    by (simp add: sample_world_def sample_row_def sample_user_def)
  have r: "token (sample_row sample_token True) = sample_token"
    "created_at (sample_row sample_token True) = sample_datetime"
    "expires_at (sample_row sample_token True) = sample_expiry"
    by (simp_all add: sample_row_def)
  obtain entries where e: "list_user_api_keys ?w sample_user = Inr entries"
    and a: "list_all2
               (\<lambda>t r. akr_key_preview r = key_preview (token t)
                     \<and> akr_created_at r = isoformat (created_at t)
                     \<and> akr_expires_at r = isoformat (expires_at t)
                     \<and> is_iso8601 (akr_created_at r)
                     \<and> is_iso8601 (akr_expires_at r)
                     \<and> akr_is_active r)
               [sample_row sample_token True] entries"
    using list_user_api_keys_active_rows [OF s v] unfolding f by blast
  from a obtain x where x: "entries = [x]"
    "akr_key_preview x = ''eyJhbGci...daXEdc_U''"
    "akr_created_at x = ''2025-03-19T16:11:30.715497''"
    "akr_expires_at x = ''2026-03-19T16:11:30''"
    "is_iso8601 (akr_created_at x)" "is_iso8601 (akr_expires_at x)"
    "akr_is_active x"
    by (auto simp add: list_all2_Cons1 r sample_preview sample_isoformat)
  have "x = \<lparr>akr_key_preview = ''eyJhbGci...daXEdc_U'',
               akr_created_at = ''2025-03-19T16:11:30.715497'',
               akr_expires_at = ''2026-03-19T16:11:30'',
               akr_is_active = True\<rparr>"
    using x(2,3,4,7) by (cases x) simp
  with e x s sample_valid show ?thesis
    by simp
qed

end
